theory Spec2Isabelle
  imports Main "HOL-Library.Multiset"
begin

section \<open>Python values, exceptions and string primitives\<close>

text \<open>
  The two programs of the repository are Python: \<^verbatim>\<open>lambda_function.py\<close> (the extraction
  stage) and \<^verbatim>\<open>glue_job.py\<close> (the transformation stage). Exceptions are values of the
  type \<open>error\<close>; a computation that may raise has a result of type \<open>error + 'a\<close>.
\<close>

datatype error =
    ValueError | KeyError | IndexError | TypeError | AttributeError | OverflowError
  | HttpError | ClientError | BotoCoreError | AnalysisException

definition bindE :: "error + 'a \<Rightarrow> ('a \<Rightarrow> error + 'b) \<Rightarrow> error + 'b" where
  "bindE m f = (case m of Inl e \<Rightarrow> Inl e | Inr x \<Rightarrow> f x)"

text \<open>A comprehension or a key function applied to every element in order: the first
  exception ends the evaluation.\<close>

fun mapE :: "('a \<Rightarrow> error + 'b) \<Rightarrow> 'a list \<Rightarrow> error + 'b list" where
  "mapE f [] = Inr []"
| "mapE f (x # xs) = bindE (f x) (\<lambda>y. bindE (mapE f xs) (\<lambda>ys. Inr (y # ys)))"

text \<open>The values the upstream API and the JSON files carry (duck typed in the source).\<close>

datatype json =
    JNull | JBool bool | JInt int | JStr string | JArr "json list"
  | JObj "(string \<times> json) list"

text \<open>Truth value of an object, as \<^verbatim>\<open>if x:\<close> and \<^verbatim>\<open>not x\<close> read it.\<close>

fun truthy :: "json \<Rightarrow> bool" where
  "truthy JNull = False"
| "truthy (JBool b) = b"
| "truthy (JInt n) = (n \<noteq> 0)"
| "truthy (JStr s) = (s \<noteq> [])"
| "truthy (JArr xs) = (xs \<noteq> [])"
| "truthy (JObj kvs) = (kvs \<noteq> [])"

text \<open>\<^verbatim>\<open>d[k]\<close> with a string key.\<close>

fun getitem :: "json \<Rightarrow> string \<Rightarrow> error + json" where
  "getitem (JObj kvs) k = (case map_of kvs k of None \<Rightarrow> Inl KeyError | Some v \<Rightarrow> Inr v)"
| "getitem _ k = Inl TypeError"

text \<open>\<^verbatim>\<open>x[0]\<close>.\<close>

fun getitem0 :: "json \<Rightarrow> error + json" where
  "getitem0 (JArr xs) = (case xs of [] \<Rightarrow> Inl IndexError | x # _ \<Rightarrow> Inr x)"
| "getitem0 (JStr s) = (case s of [] \<Rightarrow> Inl IndexError | c # _ \<Rightarrow> Inr (JStr [c]))"
| "getitem0 (JObj kvs) = Inl KeyError"
| "getitem0 _ = Inl TypeError"

text \<open>\<^verbatim>\<open>d.get(k, default)\<close>.\<close>

fun get_default :: "json \<Rightarrow> string \<Rightarrow> json \<Rightarrow> error + json" where
  "get_default (JObj kvs) k d = Inr (case map_of kvs k of None \<Rightarrow> d | Some v \<Rightarrow> v)"
| "get_default _ k d = Inl AttributeError"

subsection \<open>Decimal strings\<close>

definition is_digit :: "char \<Rightarrow> bool" where
  "is_digit c = (c \<in> set ''0123456789'')"

definition digit_val :: "char \<Rightarrow> nat" where
  "digit_val c = of_char c - 48"

definition digits_val :: "string \<Rightarrow> nat" where
  "digits_val s = foldl (\<lambda>a c. 10 * a + digit_val c) 0 s"

definition digit_char :: "nat \<Rightarrow> char" where
  "digit_char n = ''0123456789'' ! n"

text \<open>\<^verbatim>\<open>str(n)\<close> of a non-negative integer.\<close>

fun str_nat :: "nat \<Rightarrow> string" where
  "str_nat n = (if n < 10 then [digit_char n] else str_nat (n div 10) @ [digit_char (n mod 10)])"

declare str_nat.simps [simp del]

text \<open>\<^verbatim>\<open>s.zfill(width)\<close>: zeros on the left, after a sign if there is one.\<close>

definition zfill :: "nat \<Rightarrow> string \<Rightarrow> string" where
  "zfill w s =
     (let pad = replicate (w - length s) (CHR ''0'') in
      case s of
        [] \<Rightarrow> pad
      | c # cs \<Rightarrow> if c = CHR ''+'' \<or> c = CHR ''-'' then c # pad @ cs else pad @ s)"

text \<open>
  The characters that \<^verbatim>\<open>int(s)\<close> skips around the literal: the blanks of the C locale
  (tab, line feed, vertical tab, form feed, carriage return, space) and, of the code
  points from 128 to 255, the two Unicode spaces, which it reads as blanks. The
  separators \<^verbatim>\<open>\x1c\<close> to \<^verbatim>\<open>\x1f\<close> are not skipped.
\<close>

definition int_space :: "char \<Rightarrow> bool" where
  "int_space c = (of_char c \<in> {9, 10, 11, 12, 13, 32, 133, 160 :: nat})"

definition strip_int_space :: "string \<Rightarrow> string" where
  "strip_int_space s = rev (dropWhile int_space (rev (dropWhile int_space s)))"

text \<open>The body of an integer literal accepted by \<^verbatim>\<open>int(s)\<close>: digits, single underscores
  between digits, and no more digits than the interpreter's limit on the conversion of a
  string to an integer (4300 by default).\<close>

fun int_body :: "string \<Rightarrow> bool" where
  "int_body [] = False"
| "int_body [c] = is_digit c"
| "int_body (c # d # cs) =
     (is_digit c \<and> (if d = CHR ''_'' then int_body cs else int_body (d # cs)))"

definition int_body_val :: "string \<Rightarrow> error + nat" where
  "int_body_val b =
     (if int_body b \<and> length (filter is_digit b) \<le> 4300
      then Inr (digits_val (filter is_digit b)) else Inl ValueError)"

text \<open>\<^verbatim>\<open>int(s)\<close> of a string: surrounding whitespace, an optional sign, the body.\<close>

definition py_int_str :: "string \<Rightarrow> error + int" where
  "py_int_str s =
     (case strip_int_space s of
        [] \<Rightarrow> Inl ValueError
      | c # cs \<Rightarrow>
          if c = CHR ''-'' then bindE (int_body_val cs) (\<lambda>n. Inr (- int n))
          else if c = CHR ''+'' then bindE (int_body_val cs) (\<lambda>n. Inr (int n))
          else bindE (int_body_val (c # cs)) (\<lambda>n. Inr (int n)))"

text \<open>\<^verbatim>\<open>int(x)\<close> of a value.\<close>

fun py_int :: "json \<Rightarrow> error + int" where
  "py_int (JInt n) = Inr n"
| "py_int (JBool b) = Inr (if b then 1 else 0)"
| "py_int (JStr s) = py_int_str s"
| "py_int _ = Inl TypeError"


section \<open>Dates and times\<close>

definition is_leap :: "nat \<Rightarrow> bool" where
  "is_leap y = (y mod 4 = 0 \<and> (y mod 100 \<noteq> 0 \<or> y mod 400 = 0))"

definition days_in_month :: "nat \<Rightarrow> nat \<Rightarrow> nat" where
  "days_in_month y m =
     (if m = 2 then (if is_leap y then 29 else 28)
      else if m = 4 \<or> m = 6 \<or> m = 9 \<or> m = 11 then 30 else 31)"

text \<open>
  A \<^verbatim>\<open>datetime\<close> object (naive: no time zone) holds seven fields within the ranges that
  its constructor checks: a \<^verbatim>\<open>datetime\<close> outside them does not exist.
\<close>

record dt_fields =
  f_year :: nat
  f_month :: nat
  f_day :: nat
  f_hour :: nat
  f_minute :: nat
  f_second :: nat
  f_microsecond :: nat

definition valid_fields :: "dt_fields \<Rightarrow> bool" where
  "valid_fields r =
     (1 \<le> f_year r \<and> f_year r \<le> 9999 \<and> 1 \<le> f_month r \<and> f_month r \<le> 12
      \<and> 1 \<le> f_day r \<and> f_day r \<le> days_in_month (f_year r) (f_month r)
      \<and> f_hour r \<le> 23 \<and> f_minute r \<le> 59 \<and> f_second r \<le> 59
      \<and> f_microsecond r \<le> 999999)"

typedef datetime = "{r :: dt_fields. valid_fields r}"
  by (rule exI [of _ "\<lparr>f_year = 1, f_month = 1, f_day = 1, f_hour = 0, f_minute = 0,
                        f_second = 0, f_microsecond = 0\<rparr>"])
     (simp add: valid_fields_def days_in_month_def)

definition dt_year :: "datetime \<Rightarrow> nat" where
  "dt_year d = f_year (Rep_datetime d)"

definition dt_month :: "datetime \<Rightarrow> nat" where
  "dt_month d = f_month (Rep_datetime d)"

definition dt_day :: "datetime \<Rightarrow> nat" where
  "dt_day d = f_day (Rep_datetime d)"

definition dt_hour :: "datetime \<Rightarrow> nat" where
  "dt_hour d = f_hour (Rep_datetime d)"

definition dt_minute :: "datetime \<Rightarrow> nat" where
  "dt_minute d = f_minute (Rep_datetime d)"

definition dt_second :: "datetime \<Rightarrow> nat" where
  "dt_second d = f_second (Rep_datetime d)"

definition dt_microsecond :: "datetime \<Rightarrow> nat" where
  "dt_microsecond d = f_microsecond (Rep_datetime d)"

text \<open>The constructor \<^verbatim>\<open>datetime(year, month, day, hour, minute, second, microsecond)\<close>:
  \<^verbatim>\<open>ValueError\<close> for a field out of range.\<close>

definition new_datetime :: "nat \<Rightarrow> nat \<Rightarrow> nat \<Rightarrow> nat \<Rightarrow> nat \<Rightarrow> nat \<Rightarrow> nat \<Rightarrow> error + datetime" where
  "new_datetime y m d H M S us =
     (let r = \<lparr>f_year = y, f_month = m, f_day = d, f_hour = H, f_minute = M, f_second = S,
                f_microsecond = us\<rparr>
      in if valid_fields r then Inr (Abs_datetime r) else Inl ValueError)"

definition days_before_year :: "nat \<Rightarrow> nat" where
  "days_before_year y = (let p = y - 1 in p * 365 + p div 4 - p div 100 + p div 400)"

definition days_before_month :: "nat \<Rightarrow> nat \<Rightarrow> nat" where
  "days_before_month y m = sum_list (map (days_in_month y) [1..<m])"

text \<open>\<^verbatim>\<open>date.toordinal()\<close>: day 1 is 0001-01-01.\<close>

definition toordinal :: "datetime \<Rightarrow> nat" where
  "toordinal d = days_before_year (dt_year d) + days_before_month (dt_year d) (dt_month d) + dt_day d"

text \<open>Microseconds since the start of day 0: the order of naive datetimes is the order of
  these numbers.\<close>

definition micros :: "datetime \<Rightarrow> int" where
  "micros d =
     (((int (toordinal d) * 24 + int (dt_hour d)) * 60 + int (dt_minute d)) * 60
        + int (dt_second d)) * 1000000 + int (dt_microsecond d)"

text \<open>
  The regular expression that \<^verbatim>\<open>datetime.strptime\<close> builds for a format: each directive is
  a group of alternatives tried in order, each literal character matches itself without
  regard to case. The matcher below is that backtracking search in continuation style:
  \<open>alt\<close> tries the alternatives (a length and a test of the text of that length) in
  order and keeps the first one after which the rest of the pattern matches.
\<close>

fun alt :: "(nat \<times> (string \<Rightarrow> bool)) list \<Rightarrow> (string \<Rightarrow> string \<Rightarrow> 'a option) \<Rightarrow> string \<Rightarrow> 'a option" where
  "alt [] k s = None"
| "alt ((n, p) # as) k s =
     (if n \<le> length s \<and> p (take n s)
      then (case k (take n s) (drop n s) of Some r \<Rightarrow> Some r | None \<Rightarrow> alt as k s)
      else alt as k s)"

definition lit :: "string \<Rightarrow> (string \<Rightarrow> 'a option) \<Rightarrow> string \<Rightarrow> 'a option" where
  "lit cs k s = (case s of [] \<Rightarrow> None | x # xs \<Rightarrow> if x \<in> set cs then k xs else None)"

definition in_range :: "char \<Rightarrow> char \<Rightarrow> char \<Rightarrow> bool" where
  "in_range lo hi c = ((of_char lo :: nat) \<le> of_char c \<and> (of_char c :: nat) \<le> of_char hi)"

text \<open>\<^verbatim>\<open>%Y\<close> is \<^verbatim>\<open>\d\d\d\d\<close>.\<close>

definition re_Y :: "(nat \<times> (string \<Rightarrow> bool)) list" where
  "re_Y = [(4, list_all is_digit)]"

text \<open>\<^verbatim>\<open>%m\<close> is \<^verbatim>\<open>1[0-2]|0[1-9]|[1-9]\<close>.\<close>

definition re_m :: "(nat \<times> (string \<Rightarrow> bool)) list" where
  "re_m = [(2, \<lambda>t. t ! 0 = CHR ''1'' \<and> in_range (CHR ''0'') (CHR ''2'') (t ! 1)),
           (2, \<lambda>t. t ! 0 = CHR ''0'' \<and> in_range (CHR ''1'') (CHR ''9'') (t ! 1)),
           (1, \<lambda>t. in_range (CHR ''1'') (CHR ''9'') (t ! 0))]"

text \<open>\<^verbatim>\<open>%d\<close> is \<^verbatim>\<open>3[0-1]|[1-2]\d|0[1-9]|[1-9]| [1-9]\<close>.\<close>

definition re_d :: "(nat \<times> (string \<Rightarrow> bool)) list" where
  "re_d = [(2, \<lambda>t. t ! 0 = CHR ''3'' \<and> in_range (CHR ''0'') (CHR ''1'') (t ! 1)),
           (2, \<lambda>t. in_range (CHR ''1'') (CHR ''2'') (t ! 0) \<and> is_digit (t ! 1)),
           (2, \<lambda>t. t ! 0 = CHR ''0'' \<and> in_range (CHR ''1'') (CHR ''9'') (t ! 1)),
           (1, \<lambda>t. in_range (CHR ''1'') (CHR ''9'') (t ! 0)),
           (2, \<lambda>t. t ! 0 = CHR '' '' \<and> in_range (CHR ''1'') (CHR ''9'') (t ! 1))]"

text \<open>\<^verbatim>\<open>%H\<close> is \<^verbatim>\<open>2[0-3]|[0-1]\d|\d\<close>.\<close>

definition re_H :: "(nat \<times> (string \<Rightarrow> bool)) list" where
  "re_H = [(2, \<lambda>t. t ! 0 = CHR ''2'' \<and> in_range (CHR ''0'') (CHR ''3'') (t ! 1)),
           (2, \<lambda>t. in_range (CHR ''0'') (CHR ''1'') (t ! 0) \<and> is_digit (t ! 1)),
           (1, \<lambda>t. is_digit (t ! 0))]"

text \<open>\<^verbatim>\<open>%M\<close> is \<^verbatim>\<open>[0-5]\d|\d\<close>.\<close>

definition re_M :: "(nat \<times> (string \<Rightarrow> bool)) list" where
  "re_M = [(2, \<lambda>t. in_range (CHR ''0'') (CHR ''5'') (t ! 0) \<and> is_digit (t ! 1)),
           (1, \<lambda>t. is_digit (t ! 0))]"

text \<open>\<^verbatim>\<open>%S\<close> is \<^verbatim>\<open>6[0-1]|[0-5]\d|\d\<close>.\<close>

definition re_S :: "(nat \<times> (string \<Rightarrow> bool)) list" where
  "re_S = [(2, \<lambda>t. t ! 0 = CHR ''6'' \<and> in_range (CHR ''0'') (CHR ''1'') (t ! 1)),
           (2, \<lambda>t. in_range (CHR ''0'') (CHR ''5'') (t ! 0) \<and> is_digit (t ! 1)),
           (1, \<lambda>t. is_digit (t ! 0))]"

text \<open>The match of \<^verbatim>\<open>%Y-%m-%dT%H:%M:%SZ\<close> at the start of the string: the six groups and
  the text left after the match.\<close>

definition match_format :: "string \<Rightarrow> ((string \<times> string \<times> string \<times> string \<times> string \<times> string) \<times> string) option" where
  "match_format =
     alt re_Y (\<lambda>Y. lit ''-'' (
     alt re_m (\<lambda>m. lit ''-'' (
     alt re_d (\<lambda>d. lit ''Tt'' (
     alt re_H (\<lambda>H. lit '':'' (
     alt re_M (\<lambda>M. lit '':'' (
     alt re_S (\<lambda>S. lit ''Zz'' (\<lambda>rest. Some ((Y, m, d, H, M, S), rest)))))))))))))"

text \<open>
  \<^verbatim>\<open>datetime.strptime(s, "%Y-%m-%dT%H:%M:%SZ")\<close>: no match, text left after the match, a
  year 0, a day the month does not have and a second above 59 all raise \<^verbatim>\<open>ValueError\<close>.
  A value that is not a string raises \<^verbatim>\<open>TypeError\<close>.
\<close>

definition group_val :: "string \<Rightarrow> nat" where
  "group_val t = digits_val (filter is_digit t)"

definition strptime_str :: "string \<Rightarrow> error + datetime" where
  "strptime_str s =
     (case match_format s of
        None \<Rightarrow> Inl ValueError
      | Some ((Y, m, d, H, M, S), rest) \<Rightarrow>
          if rest \<noteq> [] then Inl ValueError
          else new_datetime (group_val Y) (group_val m) (group_val d) (group_val H)
                 (group_val M) (group_val S) 0)"

fun strptime :: "json \<Rightarrow> error + datetime" where
  "strptime (JStr s) = strptime_str s"
| "strptime _ = Inl TypeError"

text \<open>\<^verbatim>\<open>strftime('%Y-%m')\<close> and \<^verbatim>\<open>strftime('%Y%m%d_%H%M%S')\<close> (the year as the C library
  prints it, without padding).\<close>

definition strftime_Y_m :: "datetime \<Rightarrow> string" where
  "strftime_Y_m d = str_nat (dt_year d) @ ''-'' @ zfill 2 (str_nat (dt_month d))"

definition strftime_stamp :: "datetime \<Rightarrow> string" where
  "strftime_stamp d =
     str_nat (dt_year d) @ zfill 2 (str_nat (dt_month d)) @ zfill 2 (str_nat (dt_day d)) @ ''_''
       @ zfill 2 (str_nat (dt_hour d)) @ zfill 2 (str_nat (dt_minute d))
       @ zfill 2 (str_nat (dt_second d))"


section \<open>The extraction stage (lambda\_function.py)\<close>

subsection \<open>The records the extractor assembles\<close>

text \<open>The dictionary \<^verbatim>\<open>get_channel_info\<close> returns, and one element of the list
  \<^verbatim>\<open>get_channel_videos\<close> returns. The values are whatever the upstream API sent.\<close>

record channel_info =
  ci_channel_id :: json
  ci_title :: json
  ci_description :: json
  ci_published_at :: json
  ci_view_count :: json
  ci_subscriber_count :: json
  ci_video_count :: json
  ci_playlist_id :: json

record video =
  v_video_id :: json
  v_title :: json
  v_description :: json
  v_published_at :: json
  v_view_count :: json
  v_like_count :: json
  v_comment_count :: json
  v_duration :: json

record channel_stats =
  cs_name :: json
  cs_subscribers :: json
  cs_total_videos :: json
  cs_total_views :: json

record top_video =
  tv_title :: json
  tv_video_id :: json
  tv_view_count :: json
  tv_published_at :: json

record analysis =
  channel_stats :: channel_stats
  video_trends :: "(string \<times> nat) list"
  top_videos :: "top_video list"

subsection \<open>analyze\_channel\_data\<close>

text \<open>
  \<^verbatim>\<open>sorted(xs, key=key, reverse=True)\<close>: the keys are computed for every element first (an
  exception of the key function leaves \<open>sorted\<close>); the list is reversed, sorted by a
  stable ascending sort and reversed again, which is how the interpreter keeps the input
  order of elements with equal keys.
\<close>

definition py_sorted_reverse :: "('a \<Rightarrow> error + int) \<Rightarrow> 'a list \<Rightarrow> error + 'a list" where
  "py_sorted_reverse key xs =
     bindE (mapE key xs) (\<lambda>ks. Inr (map snd (rev (sort_key fst (rev (zip ks xs))))))"

text \<open>\<^verbatim>\<open>trends[month_key] += 1\<close> on a \<^verbatim>\<open>defaultdict(int)\<close>; the dictionary keeps the order
  in which its keys were first stored.\<close>

definition bump :: "string \<Rightarrow> (string \<times> nat) list \<Rightarrow> (string \<times> nat) list" where
  "bump k m =
     (case map_of m k of
        None \<Rightarrow> m @ [(k, 1)]
      | Some c \<Rightarrow> map (\<lambda>(k', c'). if k' = k then (k', c' + 1) else (k', c')) m)"

text \<open>\<^verbatim>\<open>current_time - timedelta(days=365)\<close>, as the number of microseconds it stands for;
  the subtraction raises \<^verbatim>\<open>OverflowError\<close> when the result would lie before year 1.\<close>

definition twelve_months_ago :: "datetime \<Rightarrow> error + int" where
  "twelve_months_ago current_time =
     (if toordinal current_time \<le> 365 then Inl OverflowError
      else Inr (micros current_time - 365 * 86400 * 1000000))"

text \<open>The loop over \<^verbatim>\<open>videos_data\<close> that counts the videos per month.\<close>

fun count_months :: "int \<Rightarrow> video list \<Rightarrow> (string \<times> nat) list \<Rightarrow> error + (string \<times> nat) list" where
  "count_months t [] m = Inr m"
| "count_months t (v # vs) m =
     bindE (strptime (v_published_at v)) (\<lambda>published_date.
       count_months t vs
         (if t \<le> micros published_date then bump (strftime_Y_m published_date) m else m))"

definition top_entry :: "video \<Rightarrow> top_video" where
  "top_entry v =
     \<lparr>tv_title = v_title v, tv_video_id = v_video_id v, tv_view_count = v_view_count v,
      tv_published_at = v_published_at v\<rparr>"

definition analyze_channel_data :: "channel_info \<Rightarrow> video list \<Rightarrow> datetime \<Rightarrow> error + analysis" where
  "analyze_channel_data channel_data videos_data current_time =
     bindE (twelve_months_ago current_time) (\<lambda>t.
     bindE (py_sorted_reverse (\<lambda>x. py_int (v_view_count x)) videos_data) (\<lambda>videos_by_views.
     bindE (count_months t videos_data []) (\<lambda>trends.
       Inr \<lparr>channel_stats =
              \<lparr>cs_name = ci_title channel_data, cs_subscribers = ci_subscriber_count channel_data,
               cs_total_videos = ci_video_count channel_data,
               cs_total_views = ci_view_count channel_data\<rparr>,
            video_trends = trends,
            top_videos = map top_entry (take 10 videos_by_views)\<rparr>)))"

subsection \<open>YouTubeExtractor.get\_channel\_info\<close>

text \<open>
  The client of the upstream API: a search by name and a lookup by identifier, each of
  which returns the decoded response or raises. \<open>channel_videos\<close> stands for the
  outcome of \<^verbatim>\<open>get_channel_videos(playlist_id, max_results)\<close>: the list of videos, or
  \<open>None\<close> after an error it caught and logged.
\<close>

record youtube =
  search_list :: "string \<Rightarrow> error + json"
  channels_list :: "json \<Rightarrow> error + json"
  channel_videos :: "json \<Rightarrow> nat \<Rightarrow> video list option"

datatype log_entry = LogError string error | LogInfo string

text \<open>The first half of the \<^verbatim>\<open>try\<close> block: the channel identifier, or \<open>None\<close> where
  the source returns \<^verbatim>\<open>None\<close> for an empty search result.\<close>

definition resolve_channel_id :: "youtube \<Rightarrow> string \<Rightarrow> error + json option" where
  "resolve_channel_id yt channel_identifier =
     (if take 2 channel_identifier \<noteq> ''UC'' then
        bindE (search_list yt channel_identifier) (\<lambda>search_response.
        bindE (getitem search_response ''items'') (\<lambda>items.
          if \<not> truthy items then Inr None
          else bindE (getitem0 items) (\<lambda>first.
               bindE (getitem first ''id'') (\<lambda>idv.
               bindE (getitem idv ''channelId'') (\<lambda>channel_id. Inr (Some channel_id))))))
      else Inr (Some (JStr channel_identifier)))"

definition build_channel_info :: "json \<Rightarrow> error + channel_info" where
  "build_channel_info item =
     bindE (getitem item ''id'') (\<lambda>cid.
     bindE (bindE (getitem item ''snippet'') (\<lambda>s. getitem s ''title'')) (\<lambda>title.
     bindE (bindE (getitem item ''snippet'') (\<lambda>s. getitem s ''description'')) (\<lambda>description.
     bindE (bindE (getitem item ''snippet'') (\<lambda>s. getitem s ''publishedAt'')) (\<lambda>published_at.
     bindE (bindE (getitem item ''statistics'') (\<lambda>s. getitem s ''viewCount'')) (\<lambda>view_count.
     bindE (bindE (getitem item ''statistics'') (\<lambda>s. get_default s ''subscriberCount'' (JStr ''N/A''))) (\<lambda>subscriber_count.
     bindE (bindE (getitem item ''statistics'') (\<lambda>s. getitem s ''videoCount'')) (\<lambda>video_count.
     bindE (bindE (bindE (getitem item ''contentDetails'') (\<lambda>c. getitem c ''relatedPlaylists''))
              (\<lambda>r. getitem r ''uploads'')) (\<lambda>playlist_id.
       Inr \<lparr>ci_channel_id = cid, ci_title = title, ci_description = description,
            ci_published_at = published_at, ci_view_count = view_count,
            ci_subscriber_count = subscriber_count, ci_video_count = video_count,
            ci_playlist_id = playlist_id\<rparr>))))))))"

text \<open>The body of the \<^verbatim>\<open>try\<close> block.\<close>

definition get_channel_info_try :: "youtube \<Rightarrow> string \<Rightarrow> error + channel_info option" where
  "get_channel_info_try yt channel_identifier =
     bindE (resolve_channel_id yt channel_identifier) (\<lambda>r.
       case r of
         None \<Rightarrow> Inr None
       | Some channel_id \<Rightarrow>
           bindE (channels_list yt channel_id) (\<lambda>channel_response.
           bindE (getitem channel_response ''items'') (\<lambda>items.
             if \<not> truthy items then Inr None
             else bindE (getitem0 items) (\<lambda>item.
                  bindE (build_channel_info item) (\<lambda>ci. Inr (Some ci))))))"

text \<open>The state the entrypoint works on: the log and the objects of the raw zone.\<close>

record raw_object =
  ro_channel_info :: channel_info
  ro_videos :: "video list"
  ro_analysis :: analysis

record world =
  logs :: "log_entry list"
  s3 :: "string \<times> string \<rightharpoonup> raw_object"

text \<open>\<^verbatim>\<open>get_channel_info\<close>: \<^verbatim>\<open>except Exception\<close> logs the error and returns \<^verbatim>\<open>None\<close>.\<close>

definition get_channel_info :: "youtube \<Rightarrow> string \<Rightarrow> world \<Rightarrow> channel_info option \<times> world" where
  "get_channel_info yt channel_identifier w =
     (case get_channel_info_try yt channel_identifier of
        Inl e \<Rightarrow> (None, w\<lparr>logs := logs w @ [LogError ''Error getting channel info'' e]\<rparr>)
      | Inr r \<Rightarrow> (r, w))"

subsection \<open>upload\_to\_s3 and lambda\_handler\<close>

text \<open>
  The process environment: the environment variables, the construction of the API client
  (\<^verbatim>\<open>build\<close>, which may raise) and the faults of the object store: \<open>put_fault\<close> says
  for a bucket and a key whether \<^verbatim>\<open>put_object\<close> raises, and what.
\<close>

record env =
  environ :: "string \<rightharpoonup> string"
  build :: "string \<Rightarrow> error + youtube"
  put_fault :: "string \<Rightarrow> string \<Rightarrow> error option"

text \<open>\<^verbatim>\<open>upload_to_s3\<close> catches \<^verbatim>\<open>ClientError\<close> only.\<close>

definition upload_to_s3 :: "env \<Rightarrow> raw_object \<Rightarrow> string \<Rightarrow> string \<Rightarrow> world \<Rightarrow> (error + bool) \<times> world" where
  "upload_to_s3 E data bucket key w =
     (case put_fault E bucket key of
        None \<Rightarrow>
          (Inr True,
           w\<lparr>s3 := (s3 w)((bucket, key) \<mapsto> data),
             logs := logs w @ [LogInfo (''Successfully uploaded to s3://'' @ bucket @ ''/'' @ key)]\<rparr>)
      | Some e \<Rightarrow>
          if e = ClientError then (Inr False, w\<lparr>logs := logs w @ [LogError ''S3 upload error'' e]\<rparr>)
          else (Inl e, w))"

text \<open>\<^verbatim>\<open>title.replace(' ', '_')\<close>.\<close>

fun replace_spaces :: "json \<Rightarrow> error + string" where
  "replace_spaces (JStr s) = Inr (map (\<lambda>c. if c = CHR '' '' then CHR ''_'' else c) s)"
| "replace_spaces _ = Inl AttributeError"

text \<open>One iteration of the loop over the channels. The clock is read once for the
  invocation (\<open>now\<close>).\<close>

definition process_channel :: "env \<Rightarrow> youtube \<Rightarrow> datetime \<Rightarrow> string \<Rightarrow> string \<Rightarrow> world \<Rightarrow> (error + unit) \<times> world" where
  "process_channel E yt now bucket channel w =
     (case get_channel_info yt channel w of
        (None, w1) \<Rightarrow> (Inr (), w1)
      | (Some ci, w1) \<Rightarrow>
          (case channel_videos yt (ci_playlist_id ci) 100 of
             None \<Rightarrow> (Inr (), w1)
           | Some videos \<Rightarrow>
               if videos = [] then (Inr (), w1)
               else
                 (case analyze_channel_data ci videos now of
                    Inl e \<Rightarrow> (Inl e, w1)
                  | Inr a \<Rightarrow>
                      (case replace_spaces (ci_title ci) of
                         Inl e \<Rightarrow> (Inl e, w1)
                       | Inr t \<Rightarrow>
                           (case upload_to_s3 E
                                   \<lparr>ro_channel_info = ci, ro_videos = videos, ro_analysis = a\<rparr>
                                   bucket (''raw/'' @ t @ ''_'' @ strftime_stamp now @ ''.json'') w1 of
                              (Inl e, w2) \<Rightarrow> (Inl e, w2)
                            | (Inr _, w2) \<Rightarrow> (Inr (), w2))))))"

fun process_channels :: "env \<Rightarrow> youtube \<Rightarrow> datetime \<Rightarrow> string \<Rightarrow> string list \<Rightarrow> world \<Rightarrow> (error + unit) \<times> world" where
  "process_channels E yt now bucket [] w = (Inr (), w)"
| "process_channels E yt now bucket (c # cs) w =
     (case process_channel E yt now bucket c w of
        (Inl e, w1) \<Rightarrow> (Inl e, w1)
      | (Inr _, w1) \<Rightarrow> process_channels E yt now bucket cs w1)"

definition channels :: "string list" where
  "channels = [''@straitstimesonline'', ''@TheBusinessTimes'', ''@Tamil_Murasu'', ''@zaobaodotsg'',
               ''@BeritaHarianSG1957'']"

text \<open>The body of the \<^verbatim>\<open>try\<close> block of \<^verbatim>\<open>lambda_handler\<close>.\<close>

definition handler_body :: "env \<Rightarrow> datetime \<Rightarrow> world \<Rightarrow> (error + unit) \<times> world" where
  "handler_body E now w =
     (case environ E ''YOUTUBE_API_KEY'' of
        None \<Rightarrow> (Inl KeyError, w)
      | Some api_key \<Rightarrow>
          (case environ E ''S3_BUCKET_NAME'' of
             None \<Rightarrow> (Inl KeyError, w)
           | Some bucket \<Rightarrow>
               (case build E api_key of
                  Inl e \<Rightarrow> (Inl e, w)
                | Inr yt \<Rightarrow> process_channels E yt now bucket channels w)))"

datatype message = Completed | Failed error

record response =
  statusCode :: nat
  body :: message

definition lambda_handler :: "env \<Rightarrow> datetime \<Rightarrow> world \<Rightarrow> response \<times> world" where
  "lambda_handler E now w =
     (case handler_body E now w of
        (Inr _, w1) \<Rightarrow> (\<lparr>statusCode = 200, body = Completed\<rparr>, w1)
      | (Inl e, w1) \<Rightarrow>
          (\<lparr>statusCode = 500, body = Failed e\<rparr>,
           w1\<lparr>logs := logs w1 @ [LogError ''Lambda execution error'' e]\<rparr>))"


section \<open>The transformation stage (glue\_job.py)\<close>

subsection \<open>get\_date\_paths\<close>

record date_info =
  di_year :: int
  di_month :: int
  di_day :: int
  di_date_path :: string

text \<open>\<^verbatim>\<open>get_date_paths\<close>, with the clock reading \<^verbatim>\<open>datetime.now()\<close> as its argument.\<close>

definition get_date_paths :: "datetime \<Rightarrow> error + date_info" where
  "get_date_paths current_time =
     (let year = dt_year current_time;
          month = zfill 2 (str_nat (dt_month current_time));
          day = zfill 2 (str_nat (dt_day current_time));
          date_path = ''year='' @ str_nat year @ ''/month='' @ month @ ''/day='' @ day
      in bindE (py_int_str month) (\<lambda>m.
         bindE (py_int_str day) (\<lambda>d.
           Inr \<lparr>di_year = int year, di_month = m, di_day = d, di_date_path = date_path\<rparr>)))"

subsection \<open>The raw records and the engine's column functions\<close>

text \<open>
  A raw JSON record as the reader returns it under the schema of \<^verbatim>\<open>get_expected_schema\<close>:
  every field is a nullable string, the array of videos, its elements and the channel
  structure are nullable (\<open>None\<close> is SQL's null).
\<close>

record video_struct =
  vs_video_id :: "string option"
  vs_title :: "string option"
  vs_description :: "string option"
  vs_published_at :: "string option"
  vs_view_count :: "string option"
  vs_like_count :: "string option"
  vs_comment_count :: "string option"
  vs_duration :: "string option"

record channel_struct =
  ch_channel_id :: "string option"
  ch_title :: "string option"
  ch_description :: "string option"
  ch_published_at :: "string option"
  ch_view_count :: "string option"
  ch_subscriber_count :: "string option"
  ch_video_count :: "string option"
  ch_playlist_id :: "string option"

record raw_row =
  rr_videos :: "video_struct option list option"
  rr_channel_info :: "channel_struct option"

text \<open>
  \<^verbatim>\<open>cast("long")\<close> of a string column, as the engine evaluates it with its default
  (non-ANSI) settings, which the job does not change: surrounding blanks and control
  characters are cut, a sign may lead, the digits up to an optional decimal point give
  the value, the digits after the point are dropped, and everything else, as well as a
  value outside 64 bits, gives null. The cast never raises.
\<close>

definition spark_blank :: "char \<Rightarrow> bool" where
  "spark_blank c = ((of_char c :: nat) \<le> 32 \<or> (of_char c :: nat) = 127)"

definition spark_trim :: "string \<Rightarrow> string" where
  "spark_trim s = rev (dropWhile spark_blank (rev (dropWhile spark_blank s)))"

definition in_long_range :: "int \<Rightarrow> bool" where
  "in_long_range v = (- (2 ^ 63) \<le> v \<and> v \<le> 2 ^ 63 - 1)"

definition cast_unsigned :: "bool \<Rightarrow> string \<Rightarrow> int option" where
  "cast_unsigned neg b =
     (let ip = takeWhile (\<lambda>x. x \<noteq> CHR ''.'') b;
          fp = drop 1 (dropWhile (\<lambda>x. x \<noteq> CHR ''.'') b);
          v = (if neg then - int (digits_val ip) else int (digits_val ip))
      in if list_all is_digit ip \<and> list_all is_digit fp \<and> in_long_range v then Some v else None)"

definition cast_long :: "string \<Rightarrow> int option" where
  "cast_long s =
     (case spark_trim s of
        [] \<Rightarrow> None
      | c # cs \<Rightarrow>
          if c = CHR ''-'' \<or> c = CHR ''+'' then (if cs = [] then None else cast_unsigned (c = CHR ''-'') cs)
          else cast_unsigned False (c # cs))"

text \<open>A field of a nullable structure: null when the structure is null.\<close>

definition field :: "'a option \<Rightarrow> ('a \<Rightarrow> 'b option) \<Rightarrow> 'b option" where
  "field s f = (case s of None \<Rightarrow> None | Some x \<Rightarrow> f x)"

text \<open>A function of a nullable column: null on null.\<close>

definition on_col :: "('a \<Rightarrow> 'b option) \<Rightarrow> 'a option \<Rightarrow> 'b option" where
  "on_col f c = (case c of None \<Rightarrow> None | Some x \<Rightarrow> f x)"

subsection \<open>transform\_data\<close>

text \<open>\<^verbatim>\<open>exploded_df\<close>: one row for every element of every array of videos; a record with a
  null or empty array gives no row.\<close>

definition explode_videos :: "raw_row list \<Rightarrow> (channel_struct option \<times> video_struct option) list" where
  "explode_videos raw_df =
     concat (map (\<lambda>r. case rr_videos r of
                         None \<Rightarrow> []
                       | Some vs \<Rightarrow> map (\<lambda>v. (rr_channel_info r, v)) vs) raw_df)"

text \<open>
  The rows of \<^verbatim>\<open>channel_df\<close> and of \<^verbatim>\<open>videos_df\<close>. Both are selected from
  \<^verbatim>\<open>exploded_df\<close>, so both have one row for every video. \<^verbatim>\<open>to_timestamp\<close>, the engine's
  parser of timestamps (null when it cannot read the string), is a parameter.
\<close>

record channel_row =
  channel_id :: "string option"
  channel_title :: "string option"
  channel_description :: "string option"
  channel_published_at :: "datetime option"
  subscriber_count :: "int option"
  video_count :: "int option"
  view_count :: "int option"
  playlist_id :: "string option"

record video_cols =
  video_id :: "string option"
  video_title :: "string option"
  video_description :: "string option"
  published_at :: "datetime option"
  view_count :: "int option"
  like_count :: "int option"
  comment_count :: "int option"
  duration :: "string option"

record video_row = video_cols +
  vid_channel_id :: "string option"

definition select_channel :: "(string \<Rightarrow> datetime option) \<Rightarrow> channel_struct option \<times> video_struct option \<Rightarrow> channel_row" where
  "select_channel to_timestamp e =
     (let ci = fst e in
      \<lparr>channel_id = field ci ch_channel_id,
       channel_title = field ci ch_title,
       channel_description = field ci ch_description,
       channel_published_at = on_col to_timestamp (field ci ch_published_at),
       subscriber_count = on_col cast_long (field ci ch_subscriber_count),
       video_count = on_col cast_long (field ci ch_video_count),
       channel_row.view_count = on_col cast_long (field ci ch_view_count),
       playlist_id = field ci ch_playlist_id\<rparr>)"

definition select_video :: "(string \<Rightarrow> datetime option) \<Rightarrow> channel_struct option \<times> video_struct option \<Rightarrow> video_row" where
  "select_video to_timestamp e =
     (let ci = fst e; v = snd e in
      \<lparr>video_id = field v vs_video_id,
       video_title = field v vs_title,
       video_description = field v vs_description,
       published_at = on_col to_timestamp (field v vs_published_at),
       video_cols.view_count = on_col cast_long (field v vs_view_count),
       like_count = on_col cast_long (field v vs_like_count),
       comment_count = on_col cast_long (field v vs_comment_count),
       duration = field v vs_duration,
       vid_channel_id = field ci ch_channel_id\<rparr>)"

text \<open>The join condition \<^verbatim>\<open>vid_channel_id == channel_id\<close>: SQL equality, which is not true
  when a side is null.\<close>

definition sql_eq :: "'a option \<Rightarrow> 'a option \<Rightarrow> bool" where
  "sql_eq a b = (a \<noteq> None \<and> a = b)"

text \<open>The inner join: every pair of a left and a right row for which the condition is
  true. (The engine fixes no order of the result; the properties below are about the
  rows and their number.)\<close>

definition inner_join :: "video_row list \<Rightarrow> channel_row list \<Rightarrow> (video_row \<times> channel_row) list" where
  "inner_join videos_df channel_df =
     concat (map (\<lambda>v. map (\<lambda>c. (v, c)) (filter (\<lambda>c. sql_eq (vid_channel_id v) (channel_id c)) channel_df))
                 videos_df)"

text \<open>A row of \<^verbatim>\<open>transformed_df\<close>: the columns of the video without \<^verbatim>\<open>vid_channel_id\<close>
  (dropped), the columns of the channel, the partition columns and the processing time.\<close>

record flat_row =
  video :: video_cols
  channel :: channel_row
  year :: int
  month :: int
  day :: int
  processed_timestamp :: datetime

definition drop_vid_channel_id :: "video_row \<Rightarrow> video_cols" where
  "drop_vid_channel_id v =
     \<lparr>video_id = video_id v, video_title = video_title v, video_description = video_description v,
      published_at = published_at v, video_cols.view_count = video_cols.view_count v,
      like_count = like_count v, comment_count = comment_count v, duration = duration v\<rparr>"

definition transformed_df :: "(string \<Rightarrow> datetime option) \<Rightarrow> date_info \<Rightarrow> datetime \<Rightarrow> raw_row list \<Rightarrow> flat_row list" where
  "transformed_df to_timestamp date_info current_timestamp raw_df =
     (let exploded_df = explode_videos raw_df;
          channel_df = map (select_channel to_timestamp) exploded_df;
          videos_df = map (select_video to_timestamp) exploded_df
      in map (\<lambda>(v, c). \<lparr>video = drop_vid_channel_id v, channel = c,
                          year = di_year date_info, month = di_month date_info,
                          day = di_day date_info, processed_timestamp = current_timestamp\<rparr>)
             (inner_join videos_df channel_df))"

text \<open>
  The transformed zone: under an output root, the rows of every partition directory
  \<^verbatim>\<open>year=Y/month=M/day=D\<close>. A write in mode \<^verbatim>\<open>overwrite\<close> with \<^verbatim>\<open>partitionBy\<close> (and the
  engine's default, static, partition overwrite mode, which the job does not change)
  deletes what is under the root and writes the partitions of the new rows.
\<close>

type_synonym table = "int \<times> int \<times> int \<rightharpoonup> flat_row list"

definition partition_of :: "flat_row \<Rightarrow> int \<times> int \<times> int" where
  "partition_of r = (year r, month r, day r)"

definition write_overwrite :: "flat_row list \<Rightarrow> table" where
  "write_overwrite rows k =
     (if filter (\<lambda>r. partition_of r = k) rows = [] then None
      else Some (filter (\<lambda>r. partition_of r = k) rows))"

text \<open>\<^verbatim>\<open>output_path.rstrip('/')\<close>.\<close>

definition rstrip_slash :: "string \<Rightarrow> string" where
  "rstrip_slash s = rev (dropWhile (\<lambda>c. c = CHR ''/'') (rev s))"

text \<open>
  \<^verbatim>\<open>transform_data\<close>. \<open>raw\<close> gives the records under an input path (the read raises when
  the path does not exist), \<open>now\<close> is the clock, \<open>st\<close> the transformed zone. Any
  exception is printed and raised again. \<^verbatim>\<open>validate_schema\<close> compares the field names of
  the frame with those of the schema it was read with, prints and returns \<^verbatim>\<open>True\<close>;
  \<^verbatim>\<open>printSchema\<close>, \<^verbatim>\<open>show\<close> and \<^verbatim>\<open>count\<close> print: none of them changes the rows or the
  store.
\<close>

definition transform_data :: "(string \<Rightarrow> datetime option) \<Rightarrow> datetime \<Rightarrow> (string \<rightharpoonup> raw_row list) \<Rightarrow> string \<Rightarrow> string \<Rightarrow> (string \<Rightarrow> table) \<Rightarrow> error + (string \<Rightarrow> table)" where
  "transform_data to_timestamp now raw input_path output_path st =
     (case raw input_path of
        None \<Rightarrow> Inl AnalysisException
      | Some raw_df \<Rightarrow>
          bindE (get_date_paths now) (\<lambda>date_info.
            Inr (st(rstrip_slash output_path :=
                      write_overwrite (transformed_df to_timestamp date_info now raw_df)))))"

text \<open>The paths \<^verbatim>\<open>main\<close> passes to \<^verbatim>\<open>transform_data\<close>.\<close>

definition job_main :: "(string \<Rightarrow> datetime option) \<Rightarrow> datetime \<Rightarrow> (string \<rightharpoonup> raw_row list) \<Rightarrow> (string \<Rightarrow> table) \<Rightarrow> error + (string \<Rightarrow> table)" where
  "job_main to_timestamp now raw st =
     bindE (get_date_paths now) (\<lambda>date_info.
       transform_data to_timestamp now raw
         (''s3://iit-matrix-test/raw/'' @ di_date_path date_info @ ''/'')
         ''s3://iit-matrix-test/transform/'' st)"

section \<open>Notions used in the statements\<close>

text \<open>The integer a view count stands for, where \<^verbatim>\<open>int\<close> accepts it.\<close>

definition count_of :: "json \<Rightarrow> int" where
  "count_of j = (case py_int j of Inl e \<Rightarrow> 0 | Inr n \<Rightarrow> n)"

definition view_key :: "video \<Rightarrow> int" where
  "view_key v = count_of (v_view_count v)"

text \<open>The list that a stable descending sort by \<open>g\<close> returns.\<close>

definition sorted_desc :: "('a \<Rightarrow> int) \<Rightarrow> 'a list \<Rightarrow> 'a list" where
  "sorted_desc g xs = rev (sort_key g (rev xs))"

text \<open>A source whose lookup gives nothing: the \<^verbatim>\<open>try\<close> block of \<open>get_channel_info\<close>
  raises, or returns \<^verbatim>\<open>None\<close>.\<close>

definition lookup_fails :: "youtube \<Rightarrow> string \<Rightarrow> bool" where
  "lookup_fails yt c = (case get_channel_info_try yt c of Inl e \<Rightarrow> True | Inr r \<Rightarrow> r = None)"

text \<open>The dictionary that \<open>get_date_paths\<close> returns for a clock reading.\<close>

definition date_info_of :: "datetime \<Rightarrow> date_info" where
  "date_info_of now =
     \<lparr>di_year = int (dt_year now), di_month = int (dt_month now), di_day = int (dt_day now),
      di_date_path = ''year='' @ str_nat (dt_year now) @ ''/month=''
         @ zfill 2 (str_nat (dt_month now)) @ ''/day='' @ zfill 2 (str_nat (dt_day now))\<rparr>"


section \<open>Example data\<close>

definition ex_channel :: channel_info where
  "ex_channel =
     \<lparr>ci_channel_id = JStr ''UC123'', ci_title = JStr ''Test Channel'', ci_description = JStr [],
      ci_published_at = JStr ''2020-01-01T00:00:00Z'', ci_view_count = JStr ''1000'',
      ci_subscriber_count = JStr ''100'', ci_video_count = JStr ''5'',
      ci_playlist_id = JStr ''UU123''\<rparr>"

definition ex_video :: "string \<Rightarrow> string \<Rightarrow> string \<Rightarrow> video" where
  "ex_video name views published =
     \<lparr>v_video_id = JStr name, v_title = JStr name, v_description = JStr [],
      v_published_at = JStr published, v_view_count = JStr views, v_like_count = JInt 0,
      v_comment_count = JInt 0, v_duration = JStr ''PT1M''\<rparr>"

definition ex_now :: datetime where
  "ex_now = Abs_datetime \<lparr>f_year = 2025, f_month = 3, f_day = 7, f_hour = 10, f_minute = 0,
                          f_second = 0, f_microsecond = 0\<rparr>"

definition ex_stats :: channel_stats where
  "ex_stats = \<lparr>cs_name = JStr ''Test Channel'', cs_subscribers = JStr ''100'',
               cs_total_videos = JStr ''5'', cs_total_views = JStr ''1000''\<rparr>"

definition ex_videos :: "video list" where
  "ex_videos =
     [ex_video ''a'' ''5'' ''2025-01-15T08:00:00Z'', ex_video ''b'' ''7'' ''2024-12-01T08:00:00Z'',
      ex_video ''c'' ''5'' ''2023-12-01T08:00:00Z'']"

definition ex_analysis :: analysis where
  "ex_analysis =
     \<lparr>channel_stats = ex_stats,
      video_trends = [(''2025-01'', 1), (''2024-12'', 1)],
      top_videos =
        [top_entry (ex_video ''b'' ''7'' ''2024-12-01T08:00:00Z''),
         top_entry (ex_video ''a'' ''5'' ''2025-01-15T08:00:00Z''),
         top_entry (ex_video ''c'' ''5'' ''2023-12-01T08:00:00Z'')]\<rparr>"

definition ex_item :: json where
  "ex_item =
     JObj [(''id'', JStr ''UC123''),
           (''snippet'', JObj [(''title'', JStr ''Test Channel''), (''description'', JStr []),
                               (''publishedAt'', JStr ''2020-01-01T00:00:00Z'')]),
           (''statistics'', JObj [(''viewCount'', JStr ''1000''), (''subscriberCount'', JStr ''100''),
                                  (''videoCount'', JStr ''5'')]),
           (''contentDetails'', JObj [(''relatedPlaylists'', JObj [(''uploads'', JStr ''UU123'')])])]"

definition ex_youtube :: youtube where
  "ex_youtube =
     \<lparr>search_list = (\<lambda>q. Inl HttpError),
      channels_list = (\<lambda>i. if i = JStr ''UC123'' then Inr (JObj [(''items'', JArr [ex_item])])
                            else Inl HttpError),
      channel_videos = (\<lambda>p n. if p = JStr ''UU123'' then Some ex_videos else None)\<rparr>"

definition ex_env :: env where
  "ex_env =
     \<lparr>environ = [''YOUTUBE_API_KEY'' \<mapsto> ''key'', ''S3_BUCKET_NAME'' \<mapsto> ''bucket''],
      build = (\<lambda>k. Inr ex_youtube),
      put_fault = (\<lambda>b k. None)\<rparr>"

definition ex_world :: world where
  "ex_world = \<lparr>logs = [], s3 = Map.empty\<rparr>"

definition ex_raw_channel :: "string option \<Rightarrow> channel_struct" where
  "ex_raw_channel cid =
     \<lparr>ch_channel_id = cid, ch_title = Some ''Test'', ch_description = None,
      ch_published_at = None, ch_view_count = Some ''1000'', ch_subscriber_count = Some ''100'',
      ch_video_count = Some ''5'', ch_playlist_id = None\<rparr>"

definition ex_raw_video :: "string \<Rightarrow> string \<Rightarrow> video_struct" where
  "ex_raw_video name views =
     \<lparr>vs_video_id = Some name, vs_title = None, vs_description = None, vs_published_at = None,
      vs_view_count = Some views, vs_like_count = None, vs_comment_count = None,
      vs_duration = None\<rparr>"

definition ex_raw_row :: "string option \<Rightarrow> video_struct list \<Rightarrow> raw_row" where
  "ex_raw_row cid vs = \<lparr>rr_videos = Some (map Some vs), rr_channel_info = Some (ex_raw_channel cid)\<rparr>"

definition ex_raw :: "string \<Rightarrow> string \<rightharpoonup> raw_row list" where
  "ex_raw views = [''s3://in'' \<mapsto> [ex_raw_row (Some ''UC1'') [ex_raw_video ''v1'' views]]]"

definition ex_early :: datetime where
  "ex_early = Abs_datetime \<lparr>f_year = 2025, f_month = 3, f_day = 7, f_hour = 9, f_minute = 0,
                            f_second = 0, f_microsecond = 0\<rparr>"

definition ex_day_before :: datetime where
  "ex_day_before = Abs_datetime \<lparr>f_year = 2025, f_month = 3, f_day = 6, f_hour = 10, f_minute = 0,
                                 f_second = 0, f_microsecond = 0\<rparr>"

definition ex_store :: "string \<Rightarrow> table" where
  "ex_store = (\<lambda>p. Map.empty)"

definition ex_old_row :: flat_row where
  "ex_old_row =
     \<lparr>video = drop_vid_channel_id
                (select_video Map.empty
                   (Some (ex_raw_channel (Some ''UC0'')), Some (ex_raw_video ''v0'' ''1''))),
      channel = select_channel Map.empty
                  (Some (ex_raw_channel (Some ''UC0'')), Some (ex_raw_video ''v0'' ''1'')),
      year = 2025, month = 3, day = 6, processed_timestamp = ex_day_before\<rparr>"

definition ex_old_store :: "string \<Rightarrow> table" where
  "ex_old_store = ex_store(''s3://out'' := [(2025, 3, 6) \<mapsto> [ex_old_row]])"



section \<open>Basic facts\<close>

lemma bindE_simps [simp]:
  "bindE (Inl e) f = Inl e"
  "bindE (Inr x) f = f x"
  by (simp_all add: bindE_def)


subsection \<open>Datetimes\<close>

lemma Rep_Abs_fields [simp]: "valid_fields r \<Longrightarrow> Rep_datetime (Abs_datetime r) = r"
  by (simp add: Abs_datetime_inverse)

lemma valid_Rep: "valid_fields (Rep_datetime d)"
  using Rep_datetime [of d] by simp

lemma datetime_ranges:
  "1 \<le> dt_year d" "dt_year d \<le> 9999" "1 \<le> dt_month d" "dt_month d \<le> 12"
  "1 \<le> dt_day d" "dt_day d \<le> 31"
proof -
  have v: "valid_fields (Rep_datetime d)" by (rule valid_Rep)
  have "days_in_month y m \<le> 31" for y m
    by (simp add: days_in_month_def)
  then have "f_day (Rep_datetime d) \<le> 31"
    using v unfolding valid_fields_def by (meson le_trans)
  then show "1 \<le> dt_year d" "dt_year d \<le> 9999" "1 \<le> dt_month d" "dt_month d \<le> 12"
    "1 \<le> dt_day d" "dt_day d \<le> 31"
    using v by (simp_all add: valid_fields_def dt_year_def dt_month_def dt_day_def)
qed

lemma dt_Abs:
  assumes "valid_fields r"
  shows "dt_year (Abs_datetime r) = f_year r" and "dt_month (Abs_datetime r) = f_month r"
    and "dt_day (Abs_datetime r) = f_day r" and "dt_hour (Abs_datetime r) = f_hour r"
    and "dt_minute (Abs_datetime r) = f_minute r" and "dt_second (Abs_datetime r) = f_second r"
    and "dt_microsecond (Abs_datetime r) = f_microsecond r"
  using assms
  by (simp_all add: dt_year_def dt_month_def dt_day_def dt_hour_def dt_minute_def dt_second_def
      dt_microsecond_def)

lemmas dt_defs = dt_Abs new_datetime_def valid_fields_def

lemma ex_datetimes:
  "dt_year ex_now = 2025" "dt_month ex_now = 3" "dt_day ex_now = 7" "dt_hour ex_now = 10"
  "dt_minute ex_now = 0" "dt_second ex_now = 0" "dt_microsecond ex_now = 0"
  "dt_year ex_early = 2025" "dt_month ex_early = 3" "dt_day ex_early = 7" "dt_hour ex_early = 9"
  by (simp_all add: ex_now_def ex_early_def dt_defs days_in_month_def)

lemmas decimal_defs =
  py_int_str_def strip_int_space_def int_space_def int_body_val_def is_digit_def digits_val_def
  digit_val_def digit_char_def zfill_def

lemmas strptime_defs =
  strptime_str_def match_format_def lit_def re_Y_def re_m_def re_d_def re_H_def re_M_def re_S_def
  in_range_def group_val_def days_in_month_def is_leap_def is_digit_def digits_val_def digit_val_def
  new_datetime_def valid_fields_def

lemmas time_defs =
  twelve_months_ago_def toordinal_def days_before_year_def days_before_month_def micros_def
  days_in_month_def is_leap_def strftime_Y_m_def

lemmas analyze_defs =
  analyze_channel_data_def py_sorted_reverse_def ex_video_def ex_channel_def ex_datetimes ex_stats_def
  twelve_months_ago_def toordinal_def days_before_year_def days_before_month_def micros_def
  strftime_Y_m_def upt_rec strptime_str_def match_format_def lit_def re_Y_def re_m_def re_d_def
  re_H_def re_M_def re_S_def in_range_def group_val_def days_in_month_def is_leap_def
  decimal_defs str_nat.simps bump_def top_entry_def dt_defs

subsection \<open>Sorting\<close>

lemma mapE_Inr:
  "mapE f xs = Inr ys \<Longrightarrow> ys = map (\<lambda>x. case f x of Inl e \<Rightarrow> d | Inr n \<Rightarrow> n) xs"
proof (induction xs arbitrary: ys)
  case Nil
  then show ?case by simp
next
  case (Cons x xs)
  then show ?case
    by (cases "f x"; cases "mapE f xs") auto
qed

lemma mapE_Inl:
  "f x = Inl e \<Longrightarrow> x \<in> set xs \<Longrightarrow> \<exists>e'. mapE f xs = Inl e'"
proof (induction xs)
  case Nil
  then show ?case by simp
next
  case (Cons y ys)
  then show ?case
    by (cases "f y"; cases "mapE f ys") auto
qed

lemma insort_key_tag:
  "insort_key fst (g a, a) (map (\<lambda>v. (g v, v)) ys) = map (\<lambda>v. (g v, v)) (insort_key g a ys)"
  by (induction ys) auto

lemma sort_key_tag:
  "sort_key fst (map (\<lambda>v. (g v, v)) ys) = map (\<lambda>v. (g v, v)) (sort_key g ys)"
  by (induction ys) (auto simp: insort_key_tag)

lemma zip_tag: "zip (map g xs) xs = map (\<lambda>v. (g v, v)) xs"
  by (induction xs) auto

lemma py_sorted_reverse_Inr:
  assumes "py_sorted_reverse key xs = Inr S"
  shows "S = sorted_desc (\<lambda>x. case key x of Inl e \<Rightarrow> 0 | Inr n \<Rightarrow> n) xs"
proof -
  let ?g = "\<lambda>x. case key x of Inl e \<Rightarrow> 0 | Inr n \<Rightarrow> n"
  obtain ks where ks: "mapE key xs = Inr ks" and S: "S = map snd (rev (sort_key fst (rev (zip ks xs))))"
    using assms by (cases "mapE key xs") (auto simp: py_sorted_reverse_def)
  have "ks = map ?g xs" using mapE_Inr [OF ks] .
  then have z: "zip ks xs = map (\<lambda>v. (?g v, v)) xs"
    by (simp add: zip_tag)
  have "sort_key fst (rev (zip ks xs)) = map (\<lambda>v. (?g v, v)) (sort_key ?g (rev xs))"
    by (simp only: z rev_map sort_key_tag)
  then have "S = map snd (rev (map (\<lambda>v. (?g v, v)) (sort_key ?g (rev xs))))"
    by (simp add: S)
  also have "\<dots> = rev (sort_key ?g (rev xs))"
    by (simp add: rev_map comp_def)
  finally show ?thesis
    by (simp add: sorted_desc_def)
qed

lemma mset_sorted_desc: "mset (sorted_desc g xs) = mset xs"
  by (simp add: sorted_desc_def)

lemma sorted_sorted_desc: "sorted_wrt (\<lambda>x y. g y \<le> g x) (sorted_desc g xs)"
proof -
  have "sorted (map g (sort_key g (rev xs)))" by simp
  then have "sorted_wrt (\<lambda>x y. g x \<le> g y) (sort_key g (rev xs))"
    by (simp add: sorted_map)
  then show ?thesis
    by (simp add: sorted_desc_def sorted_wrt_rev)
qed

lemma stable_sorted_desc:
  "filter (\<lambda>x. g x = k) (sorted_desc g xs) = filter (\<lambda>x. g x = k) xs"
  by (simp add: sorted_desc_def rev_filter [symmetric] sort_key_stable)

subsection \<open>analyze\_channel\_data\<close>

lemma count_months_Inl:
  "v \<in> set vs \<Longrightarrow> strptime (v_published_at v) = Inl e \<Longrightarrow> \<exists>e'. count_months t vs m = Inl e'"
proof (induction vs arbitrary: m)
  case Nil
  then show ?case by simp
next
  case (Cons x xs)
  show ?case
  proof (cases "strptime (v_published_at x)")
    case (Inl a)
    then show ?thesis by simp
  next
    case (Inr d)
    with Cons.prems have "v \<in> set xs" by auto
    from Cons.IH [OF this Cons.prems(2)] Inr show ?thesis by simp
  qed
qed

lemma analyze_Inr_top:
  assumes "analyze_channel_data ch vs now = Inr a"
  shows "top_videos a = map top_entry (take 10 (sorted_desc view_key vs))"
    and "mapE (\<lambda>x. py_int (v_view_count x)) vs = Inr (map view_key vs)"
proof -
  obtain t where t: "twelve_months_ago now = Inr t"
    using assms by (cases "twelve_months_ago now") (auto simp: analyze_channel_data_def)
  obtain S where S: "py_sorted_reverse (\<lambda>x. py_int (v_view_count x)) vs = Inr S"
    using assms t by (cases "py_sorted_reverse (\<lambda>x. py_int (v_view_count x)) vs")
      (auto simp: analyze_channel_data_def)
  obtain m where m: "count_months t vs [] = Inr m"
    using assms t S by (cases "count_months t vs []") (auto simp: analyze_channel_data_def)
  have vk: "(\<lambda>x. case py_int (v_view_count x) of Inl e \<Rightarrow> 0 | Inr n \<Rightarrow> n) = view_key"
    by (rule ext) (simp add: view_key_def count_of_def)
  have "S = sorted_desc view_key vs"
    using py_sorted_reverse_Inr [OF S] by (simp only: vk)
  then show "top_videos a = map top_entry (take 10 (sorted_desc view_key vs))"
    using assms t S m by (auto simp: analyze_channel_data_def)
  obtain ks where ks: "mapE (\<lambda>x. py_int (v_view_count x)) vs = Inr ks"
    using S by (cases "mapE (\<lambda>x. py_int (v_view_count x)) vs") (auto simp: py_sorted_reverse_def)
  have "ks = map view_key vs"
    using mapE_Inr [OF ks, of 0] by (simp only: vk)
  then show "mapE (\<lambda>x. py_int (v_view_count x)) vs = Inr (map view_key vs)"
    using ks by simp
qed

subsection \<open>The loop over the channels\<close>

lemma search_error_in_try:
  "take 2 c \<noteq> ''UC'' \<Longrightarrow> search_list yt c = Inl e \<Longrightarrow> get_channel_info_try yt c = Inl e"
  by (simp add: get_channel_info_try_def resolve_channel_id_def)

lemma channels_error_in_try:
  "resolve_channel_id yt c = Inr (Some cid) \<Longrightarrow> channels_list yt cid = Inl e
     \<Longrightarrow> get_channel_info_try yt c = Inl e"
  by (simp add: get_channel_info_try_def)

lemma get_channel_info_s3: "s3 (snd (get_channel_info yt c w)) = s3 w"
  by (simp add: get_channel_info_def split: sum.splits)

lemma get_channel_info_fst:
  "fst (get_channel_info yt c w) = (case get_channel_info_try yt c of Inl e \<Rightarrow> None | Inr r \<Rightarrow> r)"
  by (simp add: get_channel_info_def split: sum.splits)

lemma process_channel_lookup_fails:
  assumes "lookup_fails yt c"
  shows "fst (process_channel E yt now b c w) = Inr () \<and> s3 (snd (process_channel E yt now b c w)) = s3 w"
  using assms
  by (auto simp: lookup_fails_def process_channel_def get_channel_info_def split: sum.splits)

lemma process_channels_lookup_fails:
  assumes "list_all (lookup_fails yt) cs"
  shows "fst (process_channels E yt now b cs w) = Inr () \<and> s3 (snd (process_channels E yt now b cs w)) = s3 w"
  using assms
proof (induction cs arbitrary: w)
  case Nil
  then show ?case by simp
next
  case (Cons c cs)
  then have c: "lookup_fails yt c" and cs: "list_all (lookup_fails yt) cs" by simp_all
  obtain w1 where w1: "process_channel E yt now b c w = (Inr (), w1)" and s: "s3 w1 = s3 w"
    using process_channel_lookup_fails [OF c, of E now b w]
    by (cases "process_channel E yt now b c w") auto
  show ?case
    using Cons.IH [OF cs, of w1] w1 s by simp
qed

subsection \<open>The example run\<close>

lemma ex_try_down: "get_channel_info_try ex_youtube ''@down'' = Inl HttpError"
  by (rule search_error_in_try) (simp_all add: ex_youtube_def)

lemma ex_try_good: "get_channel_info_try ex_youtube ''UC123'' = Inr (Some ex_channel)"
  by (simp add: get_channel_info_try_def resolve_channel_id_def ex_youtube_def ex_item_def build_channel_info_def ex_channel_def)

lemma ex_analyze: "analyze_channel_data ex_channel ex_videos ex_now = Inr ex_analysis"
  by (simp add: ex_videos_def ex_analysis_def analyze_defs)

lemma ex_stamp: "strftime_stamp ex_now = ''20250307_100000''"
  by (simp add: strftime_stamp_def ex_datetimes str_nat.simps decimal_defs)

lemma ex_facts:
  "ci_playlist_id ex_channel = JStr ''UU123''"
  "ci_title ex_channel = JStr ''Test Channel''"
  "channel_videos ex_youtube (JStr ''UU123'') n = Some ex_videos"
  "ex_videos \<noteq> []"
  "put_fault ex_env b k = None"
  by (simp_all add: ex_channel_def ex_youtube_def ex_videos_def ex_env_def)

lemma ex_rest: "process_channels ex_env ex_youtube ex_now ''bucket'' [''UC123''] w =
    (Inr (), w\<lparr>s3 := (s3 w)((''bucket'', ''raw/Test_Channel_20250307_100000.json'') \<mapsto>
                \<lparr>ro_channel_info = ex_channel, ro_videos = ex_videos, ro_analysis = ex_analysis\<rparr>),
               logs := logs w @ [LogInfo ''Successfully uploaded to s3://bucket/raw/Test_Channel_20250307_100000.json'']\<rparr>)"
  by (simp add: process_channel_def get_channel_info_def ex_try_good ex_analyze ex_stamp
      upload_to_s3_def ex_facts)

subsection \<open>Decimal strings and get\_date\_paths\<close>

lemma digit_char_props:
  assumes "d < 10"
  shows "is_digit (digit_char d)" and "digit_val (digit_char d) = d"
proof -
  from assms have "d \<in> {0, 1, 2, 3, 4, 5, 6, 7, 8, 9}" by auto
  then show "is_digit (digit_char d)" and "digit_val (digit_char d) = d"
    by (auto simp: is_digit_def digit_char_def digit_val_def)
qed

lemma is_digit_not_special:
  assumes "is_digit c"
  shows "\<not> int_space c" and "c \<noteq> CHR ''-''" and "c \<noteq> CHR ''+''" and "c \<noteq> CHR ''_''"
  using assms by (auto simp: is_digit_def int_space_def)

lemma digits_val_snoc: "digits_val (s @ [c]) = 10 * digits_val s + digit_val c"
  by (simp add: digits_val_def)

lemma str_nat_digits:
  "str_nat n \<noteq> [] \<and> list_all is_digit (str_nat n) \<and> digits_val (str_nat n) = n"
proof (induction n rule: str_nat.induct)
  case (1 n)
  show ?case
  proof (cases "n < 10")
    case True
    then show ?thesis
      using digit_char_props [OF True]
      by (simp add: str_nat.simps [of n] digits_val_def)
  next
    case False
    have m: "n mod 10 < 10" by simp
    from False 1 have ih: "list_all is_digit (str_nat (n div 10))" "digits_val (str_nat (n div 10)) = n div 10"
      by simp_all
    show ?thesis
      using False ih digit_char_props [OF m]
      by (simp add: str_nat.simps [of n] digits_val_snoc)
  qed
qed

lemma digits_val_zeros: "digits_val (replicate k (CHR ''0'') @ s) = digits_val s"
proof -
  have "foldl (\<lambda>a c. 10 * a + digit_val c) 0 (replicate k (CHR ''0'')) = 0"
    by (induction k) (simp_all add: digit_val_def)
  then show ?thesis by (simp add: digits_val_def)
qed

lemma zfill_digits:
  assumes "s \<noteq> []" and "list_all is_digit s"
  shows "zfill w s = replicate (w - length s) (CHR ''0'') @ s"
proof -
  obtain c cs where s: "s = c # cs" using assms(1) by (cases s) auto
  with assms(2) have "is_digit c" by simp
  then show ?thesis
    using is_digit_not_special [of c] by (simp add: zfill_def s)
qed

lemma int_body_digits: "s \<noteq> [] \<Longrightarrow> list_all is_digit s \<Longrightarrow> int_body s"
proof (induction s rule: int_body.induct)
  case 1
  then show ?case by simp
next
  case (2 c)
  then show ?case by simp
next
  case (3 c d cs)
  then show ?case
    using is_digit_not_special(4) [of d] by auto
qed

lemma strip_digits:
  assumes "s \<noteq> []" and "list_all is_digit s"
  shows "strip_int_space s = s"
proof -
  have h: "\<not> int_space (hd s)"
    using assms is_digit_not_special(1) [of "hd s"] by (cases s) auto
  have l: "\<not> int_space (hd (rev s))"
    using assms is_digit_not_special(1) [of "last s"]
    by (simp add: hd_rev list_all_iff)
  have "dropWhile int_space s = s" using h assms(1) by (cases s) auto
  moreover have "dropWhile int_space (rev s) = rev s" using l assms(1) by (cases "rev s") auto
  ultimately show ?thesis by (simp add: strip_int_space_def)
qed

lemma py_int_str_digits:
  assumes "s \<noteq> []" and "list_all is_digit s" and "length s \<le> 4300"
  shows "py_int_str s = Inr (int (digits_val s))"
proof -
  obtain c cs where s: "s = c # cs" using assms(1) by (cases s) auto
  with assms(2) have c: "is_digit c" by simp
  have f: "filter is_digit s = s" using assms(2) by (simp add: list_all_iff)
  have v: "int_body_val (c # cs) = Inr (digits_val (c # cs))"
    using int_body_digits [OF assms(1,2)] f assms(3) by (simp add: int_body_val_def s)
  have "strip_int_space s = c # cs"
    using strip_digits [OF assms(1,2)] by (simp add: s)
  then show ?thesis
    using is_digit_not_special(2,3) [OF c] by (simp add: py_int_str_def v s)
qed

lemma zfill_two_digits:
  assumes "n < 100"
  shows "zfill 2 (str_nat n) = [digit_char (n div 10), digit_char (n mod 10)]"
proof (cases "n < 10")
  case True
  have "is_digit (digit_char n)" by (rule digit_char_props(1) [OF True])
  then have "digit_char n \<noteq> CHR ''+''" "digit_char n \<noteq> CHR ''-''"
    using is_digit_not_special [of "digit_char n"] by simp_all
  moreover have "digit_char 0 = CHR ''0''" by (simp add: digit_char_def)
  ultimately show ?thesis
    using True by (simp add: str_nat.simps [of n] zfill_def)
next
  case False
  have d: "n div 10 < 10" using assms by simp
  have "is_digit (digit_char (n div 10))" by (rule digit_char_props(1) [OF d])
  then have "digit_char (n div 10) \<noteq> CHR ''+''" "digit_char (n div 10) \<noteq> CHR ''-''"
    using is_digit_not_special [of "digit_char (n div 10)"] by simp_all
  then show ?thesis
    using False d by (simp add: str_nat.simps [of n] str_nat.simps [of "n div 10"] zfill_def)
qed

lemma py_int_str_zfill:
  assumes "n < 100"
  shows "py_int_str (zfill 2 (str_nat n)) = Inr (int n)"
proof -
  let ?s = "[digit_char (n div 10), digit_char (n mod 10)]"
  have a: "n div 10 < 10" and b: "n mod 10 < 10" using assms by simp_all
  have d: "list_all is_digit ?s"
    using digit_char_props(1) [OF a] digit_char_props(1) [OF b] by simp
  have "digits_val ?s = n"
    using digit_char_props(2) [OF a] digit_char_props(2) [OF b] by (simp add: digits_val_def)
  then show ?thesis
    using py_int_str_digits [of ?s] d by (simp add: zfill_two_digits [OF assms])
qed

lemma digit_char_nonzero:
  assumes "k < 10" and "k \<noteq> 0"
  shows "digit_char k \<noteq> CHR ''0''"
proof -
  from assms have "k \<in> {1, 2, 3, 4, 5, 6, 7, 8, 9}" by auto
  then show ?thesis
    by (auto simp: digit_char_def)
qed

lemma str_nat_hd: "1 \<le> n \<Longrightarrow> hd (str_nat n) \<noteq> CHR ''0''"
proof (induction n rule: str_nat.induct)
  case (1 n)
  show ?case
  proof (cases "n < 10")
    case True
    then show ?thesis
      using digit_char_nonzero [OF True] "1.prems" by (simp add: str_nat.simps [of n])
  next
    case False
    then have "1 \<le> n div 10" by simp
    with False 1 have "hd (str_nat (n div 10)) \<noteq> CHR ''0''" by simp
    moreover have "str_nat (n div 10) \<noteq> []" using str_nat_digits [of "n div 10"] by simp
    ultimately show ?thesis
      using False by (simp add: str_nat.simps [of n])
  qed
qed

lemma get_date_paths_total: "get_date_paths now = Inr (date_info_of now)"
proof -
  have "dt_month now < 100" "dt_day now < 100"
    using datetime_ranges(4,6) [of now] by simp_all
  then show ?thesis
    by (simp add: get_date_paths_def py_int_str_zfill Let_def date_info_of_def)
qed

subsection \<open>transform\_data\<close>

lemmas cast_defs =
  cast_long_def spark_trim_def spark_blank_def cast_unsigned_def in_long_range_def
  is_digit_def digits_val_def digit_val_def

lemmas frame_defs =
  transformed_df_def explode_videos_def select_channel_def select_video_def inner_join_def
  sql_eq_def field_def on_col_def drop_vid_channel_id_def

lemma cast_long_examples:
  "cast_long ''100'' = Some 100" "cast_long ''50'' = Some 50" "cast_long ''5'' = Some 5"
  "cast_long ''1000'' = Some 1000" "cast_long ''60'' = Some 60" "cast_long ''abc'' = None"
  by (simp_all add: cast_defs)







lemma process_channels_analysis_error:
  assumes "get_channel_info_try yt c = Inr (Some ci)"
    and "channel_videos yt (ci_playlist_id ci) 100 = Some vs" and "vs \<noteq> []"
    and "analyze_channel_data ci vs now = Inl e"
  shows "process_channels E yt now b (c # cs) w = (Inl e, w)"
  using assms by (simp add: process_channel_def get_channel_info_def)

lemma transform_data_Inr:
  assumes "raw input_path = Some raw_df"
  shows "transform_data to_timestamp now raw input_path output_path st =
     Inr (st(rstrip_slash output_path :=
               write_overwrite (transformed_df to_timestamp (date_info_of now) now raw_df)))"
  by (simp add: transform_data_def assms get_date_paths_total)

lemma transform_data_Inl:
  "raw input_path = None \<Longrightarrow>
     transform_data to_timestamp now raw input_path output_path st = Inl AnalysisException"
  by (simp add: transform_data_def)

lemma partition_of_transformed:
  "r \<in> set (transformed_df to_timestamp date_info now raw_df) \<Longrightarrow>
     partition_of r = (di_year date_info, di_month date_info, di_day date_info)"
  by (auto simp: transformed_df_def partition_of_def Let_def)

lemma write_overwrite_transformed:
  "write_overwrite (transformed_df to_timestamp date_info now raw_df) k =
     (if k = (di_year date_info, di_month date_info, di_day date_info)
         \<and> transformed_df to_timestamp date_info now raw_df \<noteq> []
      then Some (transformed_df to_timestamp date_info now raw_df) else None)"
proof -
  let ?rows = "transformed_df to_timestamp date_info now raw_df"
  let ?d = "(di_year date_info, di_month date_info, di_day date_info)"
  have p: "\<forall>r \<in> set ?rows. partition_of r = ?d"
    using partition_of_transformed by blast
  show ?thesis
  proof (cases "k = ?d")
    case True
    with p have "filter (\<lambda>r. partition_of r = k) ?rows = ?rows"
      by (simp add: filter_id_conv)
    then show ?thesis using True by (simp add: write_overwrite_def)
  next
    case False
    with p have "filter (\<lambda>r. partition_of r = k) ?rows = []"
      by (auto simp: filter_empty_conv)
    then show ?thesis using False by (simp add: write_overwrite_def)
  qed
qed

lemma transformed_df_timestamp:
  "map (\<lambda>r. r\<lparr>processed_timestamp := t\<rparr>) (transformed_df to_timestamp di n1 raw_df)
     = map (\<lambda>r. r\<lparr>processed_timestamp := t\<rparr>) (transformed_df to_timestamp di n2 raw_df)"
  by (simp add: transformed_df_def Let_def case_prod_unfold comp_def)

lemma transformed_df_empty:
  "transformed_df to_timestamp di n1 raw_df = [] \<longleftrightarrow> transformed_df to_timestamp di n2 raw_df = []"
  using transformed_df_timestamp [of undefined to_timestamp di n1 raw_df n2]
  by (metis map_is_Nil_conv)

lemma join_row_count_square:
  "length (transformed_df to_timestamp date_info now
             [\<lparr>rr_videos = Some vs, rr_channel_info = Some (c\<lparr>ch_channel_id := Some cid\<rparr>)\<rparr>])
     = length vs * length vs"
  by (simp add: frame_defs length_concat comp_def sum_list_triv)

subsection \<open>The example run of the transformation\<close>

lemma rstrip_out: "rstrip_slash ''s3://out/'' = ''s3://out''"
  by (simp add: rstrip_slash_def)

lemma ex_date: "date_info_of ex_now = \<lparr>di_year = 2025, di_month = 3, di_day = 7, di_date_path = ''year=2025/month=03/day=07''\<rparr>"
  "date_info_of ex_early = \<lparr>di_year = 2025, di_month = 3, di_day = 7, di_date_path = ''year=2025/month=03/day=07''\<rparr>"
  by (simp_all add: date_info_of_def ex_datetimes str_nat.simps decimal_defs)

lemma ex_raw_in: "ex_raw views ''s3://in'' = Some [ex_raw_row (Some ''UC1'') [ex_raw_video ''v1'' views]]"
  by (simp add: ex_raw_def)

lemma ex_rows:
  "transformed_df Map.empty di t [ex_raw_row (Some ''UC1'') [ex_raw_video ''v1'' views]] =
    [\<lparr>video = drop_vid_channel_id (select_video Map.empty (Some (ex_raw_channel (Some ''UC1'')), Some (ex_raw_video ''v1'' views))),
      channel = select_channel Map.empty (Some (ex_raw_channel (Some ''UC1'')), Some (ex_raw_video ''v1'' views)),
      year = di_year di, month = di_month di, day = di_day di, processed_timestamp = t\<rparr>]"
  by (simp add: transformed_df_def explode_videos_def inner_join_def ex_raw_row_def)
     (simp add: select_video_def select_channel_def sql_eq_def field_def ex_raw_channel_def)

section \<open>Flatten and join\<close>

text \<open>
  Claim C1 asks for exactly one output row for every item of a source that is present.
  \<^verbatim>\<open>channel_df\<close> is selected from the exploded frame, so it holds the channel once for
  every video, and the inner join on the channel identifier pairs every video with every
  one of these copies: an assembled record with the two videos \<open>v1\<close> and \<open>v2\<close> gives four
  rows, each video twice (and a record with \<open>n\<close> videos gives \<open>n * n\<close> rows, lemma
  \<open>join_row_count_square\<close>).
\<close>

theorem join_duplicates_rows:
  "map (\<lambda>r. video_id (video r))
     (transformed_df to_timestamp date_info now
        [ex_raw_row (Some ''UC1'') [ex_raw_video ''v1'' ''50'', ex_raw_video ''v2'' ''60'']])
   = [Some ''v1'', Some ''v1'', Some ''v2'', Some ''v2'']"
  by (simp add: frame_defs ex_raw_row_def ex_raw_channel_def ex_raw_video_def)

section \<open>Non-numeric counts\<close>




section \<open>Malformed timestamps in the analysis\<close>

text \<open>
  Claim C3 (as amended). \<open>analyze_channel_data\<close> has no handler around
  \<^verbatim>\<open>datetime.strptime\<close>: when the creation timestamp of any item of the list is malformed
  (\<^verbatim>\<open>strptime\<close> raises), the call raises and no summary is produced, for the remaining
  items or otherwise.
\<close>

theorem analyze_raises_on_malformed_timestamp:
  assumes "v \<in> set vs" and "strptime (v_published_at v) = Inl e"
  shows "\<exists>e'. analyze_channel_data ch vs now = Inl e'"
proof (cases "twelve_months_ago now")
  case (Inl a)
  then show ?thesis by (simp add: analyze_channel_data_def)
next
  case t: (Inr t)
  show ?thesis
  proof (cases "py_sorted_reverse (\<lambda>x. py_int (v_view_count x)) vs")
    case (Inl a)
    then show ?thesis by (simp add: analyze_channel_data_def t)
  next
    case S: (Inr S)
    obtain e' where "count_months t vs [] = Inl e'"
      using count_months_Inl [OF assms] by blast
    then show ?thesis by (simp add: analyze_channel_data_def t S)
  qed
qed

theorem analyze_raises_on_malformed_timestamp_witness:
  "ex_video ''b'' ''7'' ''not-a-date'' \<in> set [ex_video ''a'' ''5'' ''2025-01-15T08:00:00Z'', ex_video ''b'' ''7'' ''not-a-date'']
   \<and> strptime (v_published_at (ex_video ''b'' ''7'' ''not-a-date'')) = Inl ValueError
   \<and> (\<exists>e'. analyze_channel_data ex_channel
               [ex_video ''a'' ''5'' ''2025-01-15T08:00:00Z'', ex_video ''b'' ''7'' ''not-a-date'']
               ex_now = Inl e')"
proof -
  have m: "ex_video ''b'' ''7'' ''not-a-date'' \<in> set [ex_video ''a'' ''5'' ''2025-01-15T08:00:00Z'', ex_video ''b'' ''7'' ''not-a-date'']"
    by simp
  have p: "strptime (v_published_at (ex_video ''b'' ''7'' ''not-a-date'')) = Inl ValueError"
    by (simp add: ex_video_def strptime_defs)
  show ?thesis
    using m p analyze_raises_on_malformed_timestamp [OF m p] by blast
qed

text \<open>
  The claim as stated: with one well-formed and one malformed item the call still
  produces a summary. It raises \<^verbatim>\<open>ValueError\<close>.
\<close>

theorem analyze_malformed_timestamp_no_summary:
  "analyze_channel_data ex_channel
     [ex_video ''a'' ''5'' ''2025-01-15T08:00:00Z'', ex_video ''b'' ''7'' ''not-a-date'']
     ex_now = Inl ValueError"
  by (simp add: analyze_defs)

section \<open>The top-10 list of the analysis\<close>

text \<open>
  Claim C4 (as amended). Whenever \<open>analyze_channel_data\<close> returns a summary, every view
  count is accepted by \<^verbatim>\<open>int\<close>, and the top-10 list is the projection of the first ten
  items of the input sorted by integer view count in non-increasing order, where items
  with equal view counts stay in input order: the sorted list is a permutation of the
  input, it is ordered by view count from high to low, and for every count the items
  with that count stand in it (and so in its first ten and in the rest) in the order of
  the input. The list has at most ten entries, each the projection of an input item.
\<close>

theorem top_videos_sorted_stable:
  assumes "analyze_channel_data ch vs now = Inr a"
  shows "mapE (\<lambda>v. py_int (v_view_count v)) vs = Inr (map view_key vs)
       \<and> top_videos a = map top_entry (take 10 (sorted_desc view_key vs))
       \<and> mset (sorted_desc view_key vs) = mset vs
       \<and> sorted_wrt (\<lambda>x y. view_key y \<le> view_key x) (sorted_desc view_key vs)
       \<and> (\<forall>k. filter (\<lambda>x. view_key x = k) (sorted_desc view_key vs)
                = filter (\<lambda>x. view_key x = k) vs)
       \<and> (\<forall>k. filter (\<lambda>x. view_key x = k) (take 10 (sorted_desc view_key vs))
                  @ filter (\<lambda>x. view_key x = k) (drop 10 (sorted_desc view_key vs))
                = filter (\<lambda>x. view_key x = k) vs)
       \<and> sorted_wrt (\<lambda>x y. count_of (tv_view_count y) \<le> count_of (tv_view_count x)) (top_videos a)
       \<and> length (top_videos a) \<le> 10
       \<and> set (top_videos a) \<subseteq> top_entry ` set vs"
proof -
  let ?S = "sorted_desc view_key vs"
  note top = analyze_Inr_top [OF assms]
  have stable: "filter (\<lambda>x. view_key x = k) ?S = filter (\<lambda>x. view_key x = k) vs" for k
    by (rule stable_sorted_desc)
  have split: "filter (\<lambda>x. view_key x = k) (take 10 ?S) @ filter (\<lambda>x. view_key x = k) (drop 10 ?S)
                 = filter (\<lambda>x. view_key x = k) vs" for k
  proof -
    have "filter (\<lambda>x. view_key x = k) (take 10 ?S) @ filter (\<lambda>x. view_key x = k) (drop 10 ?S)
            = filter (\<lambda>x. view_key x = k) (take 10 ?S @ drop 10 ?S)"
      by (simp only: filter_append)
    then show ?thesis by (simp add: stable)
  qed
  have srt: "sorted_wrt (\<lambda>x y. view_key y \<le> view_key x) ?S"
    by (rule sorted_sorted_desc)
  then have "sorted_wrt (\<lambda>x y. view_key y \<le> view_key x) (take 10 ?S)"
    by (rule sorted_wrt_take)
  then have srt_top: "sorted_wrt (\<lambda>x y. count_of (tv_view_count y) \<le> count_of (tv_view_count x)) (top_videos a)"
    by (simp add: top(1) sorted_wrt_map top_entry_def view_key_def)
  have len: "length (top_videos a) \<le> 10"
    by (simp add: top(1))
  have "set (take 10 ?S) \<subseteq> set ?S" by (rule set_take_subset)
  also have "set ?S = set vs"
    using mset_sorted_desc [of view_key vs] by (metis set_mset_mset)
  finally have sub: "set (top_videos a) \<subseteq> top_entry ` set vs"
    by (auto simp: top(1))
  show ?thesis
    using top stable split srt srt_top len sub mset_sorted_desc [of view_key vs] by blast
qed

theorem top_videos_sorted_stable_witness:
  "analyze_channel_data ex_channel ex_videos ex_now = Inr ex_analysis
   \<and> mapE (\<lambda>v. py_int (v_view_count v)) ex_videos = Inr (map view_key ex_videos)
   \<and> top_videos ex_analysis = map top_entry (take 10 (sorted_desc view_key ex_videos))
   \<and> mset (sorted_desc view_key ex_videos) = mset ex_videos
   \<and> sorted_wrt (\<lambda>x y. view_key y \<le> view_key x) (sorted_desc view_key ex_videos)
   \<and> (\<forall>k. filter (\<lambda>x. view_key x = k) (sorted_desc view_key ex_videos)
            = filter (\<lambda>x. view_key x = k) ex_videos)
   \<and> sorted_wrt (\<lambda>x y. count_of (tv_view_count y) \<le> count_of (tv_view_count x))
        (top_videos ex_analysis)
   \<and> length (top_videos ex_analysis) \<le> 10
   \<and> set (top_videos ex_analysis) \<subseteq> top_entry ` set ex_videos"
proof -
  have h: "analyze_channel_data ex_channel ex_videos ex_now = Inr ex_analysis"
    by (simp add: ex_videos_def ex_analysis_def analyze_defs)
  show ?thesis
    using h top_videos_sorted_stable [OF h] by blast
qed

text \<open>
  The claim as stated asks for a strictly descending list. Two items with the same view
  count both enter the list, in input order, so the list is not strictly descending.
\<close>

theorem top_videos_not_strictly_descending:
  "map_sum id top_videos
     (analyze_channel_data ex_channel
        [ex_video ''a'' ''5'' ''2025-01-15T08:00:00Z'', ex_video ''b'' ''5'' ''2024-12-01T08:00:00Z'']
        ex_now)
     = Inr [top_entry (ex_video ''a'' ''5'' ''2025-01-15T08:00:00Z''),
            top_entry (ex_video ''b'' ''5'' ''2024-12-01T08:00:00Z'')]
   \<and> \<not> sorted_wrt (\<lambda>x y. count_of (tv_view_count y) < count_of (tv_view_count x))
         [top_entry (ex_video ''a'' ''5'' ''2025-01-15T08:00:00Z''),
          top_entry (ex_video ''b'' ''5'' ''2024-12-01T08:00:00Z'')]"
  by (simp add: analyze_defs count_of_def)

section \<open>Channel-level and item-level counters\<close>

text \<open>
  Claim C5 (as amended). For channel data with title \<open>Test\<close>, subscriber count \<open>100\<close>,
  video count \<open>5\<close>, view count \<open>1000\<close> and a channel identifier, and one item with view
  count \<open>50\<close>, whatever the other fields are, the transformed frame has exactly one row;
  its channel columns carry the integers 100, 5 and 1000, and its item-level view count
  is the integer 50. Whether or not the channel has an identifier, every row of the
  transformed frame carries these values: the counters are never swapped.
\<close>

theorem flat_row_counts:
  "map (\<lambda>r. (channel_title (channel r), subscriber_count (channel r), video_count (channel r),
              channel_row.view_count (channel r), video_cols.view_count (video r)))
     (transformed_df to_timestamp date_info now
        [\<lparr>rr_videos = Some [Some (v\<lparr>vs_view_count := Some ''50''\<rparr>)],
          rr_channel_info =
            Some (c\<lparr>ch_channel_id := Some cid, ch_title := Some ''Test'',
                    ch_subscriber_count := Some ''100'', ch_video_count := Some ''5'',
                    ch_view_count := Some ''1000''\<rparr>)\<rparr>])
   = [(Some ''Test'', Some 100, Some 5, Some 1000, Some 50)]
   \<and> list_all (\<lambda>r. channel_title (channel r) = Some ''Test''
                   \<and> subscriber_count (channel r) = Some 100
                   \<and> video_count (channel r) = Some 5
                   \<and> channel_row.view_count (channel r) = Some 1000
                   \<and> video_cols.view_count (video r) = Some 50)
       (transformed_df to_timestamp date_info now
          [\<lparr>rr_videos = Some [Some (v\<lparr>vs_view_count := Some ''50''\<rparr>)],
            rr_channel_info =
              Some (c\<lparr>ch_title := Some ''Test'', ch_subscriber_count := Some ''100'',
                      ch_video_count := Some ''5'', ch_view_count := Some ''1000''\<rparr>)\<rparr>])"
  by (cases "ch_channel_id c") (simp_all add: frame_defs cast_long_examples)

text \<open>
  The claim as stated gives the channel data no identifier. Without one the join
  condition is not true for any pair of rows, and the transformed frame has no row that
  could carry the counters.
\<close>

theorem no_channel_id_no_row:
  "transformed_df Map.empty (date_info_of ex_now) ex_now
     [ex_raw_row None [ex_raw_video ''v1'' ''50'']] = []
   \<and> ex_raw_channel None =
       \<lparr>ch_channel_id = None, ch_title = Some ''Test'', ch_description = None,
        ch_published_at = None, ch_view_count = Some ''1000'', ch_subscriber_count = Some ''100'',
        ch_video_count = Some ''5'', ch_playlist_id = None\<rparr>
   \<and> vs_view_count (ex_raw_video ''v1'' ''50'') = Some ''50''"
  by (simp add: frame_defs ex_raw_row_def ex_raw_channel_def ex_raw_video_def)

section \<open>Running the transformer twice\<close>

text \<open>
  Claim C6 (as amended). Two runs over the same input at two clock readings of the same
  date: both return; the second leaves the store exactly as it would have left it without
  the first; afterwards the partition of that date holds the rows of the second run and
  nothing else (it is absent when there are none); and in every partition the rows after
  the second run are the rows after the first run up to the column
  \<open>processed_timestamp\<close>, which carries the time of each run.
\<close>

theorem rerun_replaces_partition:
  assumes "raw input_path = Some raw_df"
    and "dt_year n1 = dt_year n2" and "dt_month n1 = dt_month n2" and "dt_day n1 = dt_day n2"
  shows "\<exists>st1 st2.
           transform_data to_timestamp n1 raw input_path output_path st = Inr st1
         \<and> transform_data to_timestamp n2 raw input_path output_path st1 = Inr st2
         \<and> transform_data to_timestamp n2 raw input_path output_path st = Inr st2
         \<and> st2 (rstrip_slash output_path) (int (dt_year n2), int (dt_month n2), int (dt_day n2))
             = (if transformed_df to_timestamp (date_info_of n2) n2 raw_df = [] then None
                else Some (transformed_df to_timestamp (date_info_of n2) n2 raw_df))
         \<and> (\<forall>k. map_option (map (\<lambda>r. r\<lparr>processed_timestamp := t\<rparr>)) (st2 (rstrip_slash output_path) k)
                = map_option (map (\<lambda>r. r\<lparr>processed_timestamp := t\<rparr>)) (st1 (rstrip_slash output_path) k))"
proof -
  let ?root = "rstrip_slash output_path"
  let ?rows1 = "transformed_df to_timestamp (date_info_of n1) n1 raw_df"
  let ?rows2 = "transformed_df to_timestamp (date_info_of n2) n2 raw_df"
  let ?st1 = "st(?root := write_overwrite ?rows1)"
  let ?st2 = "st(?root := write_overwrite ?rows2)"
  note run = transform_data_Inr [where raw = raw and input_path = input_path, OF assms(1)]
  have d: "date_info_of n1 = date_info_of n2"
    using assms(2-4) by (simp add: date_info_of_def)
  have r1: "transform_data to_timestamp n1 raw input_path output_path st = Inr ?st1"
    by (rule run)
  have r2: "transform_data to_timestamp n2 raw input_path output_path ?st1 = Inr ?st2"
    by (simp add: run)
  have r3: "transform_data to_timestamp n2 raw input_path output_path st = Inr ?st2"
    by (rule run)
  have p: "?st2 ?root (int (dt_year n2), int (dt_month n2), int (dt_day n2))
             = (if ?rows2 = [] then None else Some ?rows2)"
    by (simp add: write_overwrite_transformed date_info_of_def)
  have e: "?rows1 = [] \<longleftrightarrow> ?rows2 = []"
    unfolding d by (rule transformed_df_empty)
  have m: "map (\<lambda>r. r\<lparr>processed_timestamp := t\<rparr>) ?rows2 = map (\<lambda>r. r\<lparr>processed_timestamp := t\<rparr>) ?rows1"
    unfolding d by (rule transformed_df_timestamp)
  have q: "map_option (map (\<lambda>r. r\<lparr>processed_timestamp := t\<rparr>)) (?st2 ?root k)
         = map_option (map (\<lambda>r. r\<lparr>processed_timestamp := t\<rparr>)) (?st1 ?root k)" for k
    using e m by (simp add: write_overwrite_transformed d)
  show ?thesis
    using r1 r2 r3 p q by blast
qed

theorem rerun_replaces_partition_witness:
  "ex_raw ''50'' ''s3://in'' = Some [ex_raw_row (Some ''UC1'') [ex_raw_video ''v1'' ''50'']]
   \<and> dt_year ex_early = dt_year ex_now \<and> dt_month ex_early = dt_month ex_now
   \<and> dt_day ex_early = dt_day ex_now
   \<and> (\<exists>st1 st2.
         transform_data Map.empty ex_early (ex_raw ''50'') ''s3://in'' ''s3://out/'' ex_old_store = Inr st1
       \<and> transform_data Map.empty ex_now (ex_raw ''50'') ''s3://in'' ''s3://out/'' st1 = Inr st2
       \<and> map_option length (st2 ''s3://out'' (2025, 3, 7)) = Some 1
       \<and> map_option (map (\<lambda>r. r\<lparr>processed_timestamp := ex_now\<rparr>)) (st2 ''s3://out'' (2025, 3, 7))
           = map_option (map (\<lambda>r. r\<lparr>processed_timestamp := ex_now\<rparr>)) (st1 ''s3://out'' (2025, 3, 7)))"
proof -
  have y: "dt_year ex_early = dt_year ex_now" and m: "dt_month ex_early = dt_month ex_now"
    and d: "dt_day ex_early = dt_day ex_now"
    by (simp_all add: ex_datetimes)
  obtain st1 st2 where
    r1: "transform_data Map.empty ex_early (ex_raw ''50'') ''s3://in'' ''s3://out/'' ex_old_store = Inr st1"
    and r2: "transform_data Map.empty ex_now (ex_raw ''50'') ''s3://in'' ''s3://out/'' st1 = Inr st2"
    and p: "st2 (rstrip_slash ''s3://out/'') (int (dt_year ex_now), int (dt_month ex_now), int (dt_day ex_now))
             = (if transformed_df Map.empty (date_info_of ex_now) ex_now [ex_raw_row (Some ''UC1'') [ex_raw_video ''v1'' ''50'']] = [] then None
                else Some (transformed_df Map.empty (date_info_of ex_now) ex_now [ex_raw_row (Some ''UC1'') [ex_raw_video ''v1'' ''50'']]))"
    and q: "\<forall>k. map_option (map (\<lambda>r. r\<lparr>processed_timestamp := ex_now\<rparr>)) (st2 (rstrip_slash ''s3://out/'') k)
                = map_option (map (\<lambda>r. r\<lparr>processed_timestamp := ex_now\<rparr>)) (st1 (rstrip_slash ''s3://out/'') k)"
    using rerun_replaces_partition [where raw = "ex_raw ''50''" and input_path = "''s3://in''"
        and ?n1.0 = ex_early and ?n2.0 = ex_now and to_timestamp = Map.empty
        and output_path = "''s3://out/''" and st = ex_old_store and t = ex_now, OF ex_raw_in y m d]
    by blast
  have l: "map_option length (st2 ''s3://out'' (2025, 3, 7)) = Some 1"
    using p by (simp add: rstrip_out ex_datetimes ex_rows)
  have e: "map_option (map (\<lambda>r. r\<lparr>processed_timestamp := ex_now\<rparr>)) (st2 ''s3://out'' (2025, 3, 7))
           = map_option (map (\<lambda>r. r\<lparr>processed_timestamp := ex_now\<rparr>)) (st1 ''s3://out'' (2025, 3, 7))"
    using q by (simp add: rstrip_out)
  show ?thesis
    using ex_raw_in [of "''50''"] y m d r1 r2 l e by blast
qed

text \<open>
  The claim as stated asks for the same row set. A run at 09:00 followed by a run at
  10:00 of the same day leaves a partition whose set of rows differs from the one the
  first run left: the rows differ in \<open>processed_timestamp\<close>.
\<close>

theorem rerun_changes_processed_timestamp:
  "map_sum id (\<lambda>st. map_option set (st ''s3://out'' (2025, 3, 7)))
     (bindE (transform_data Map.empty ex_early (ex_raw ''50'') ''s3://in'' ''s3://out/'' ex_store)
        (transform_data Map.empty ex_now (ex_raw ''50'') ''s3://in'' ''s3://out/''))
   \<noteq> map_sum id (\<lambda>st. map_option set (st ''s3://out'' (2025, 3, 7)))
       (transform_data Map.empty ex_early (ex_raw ''50'') ''s3://in'' ''s3://out/'' ex_store)"
proof -
  have "dt_hour ex_early \<noteq> dt_hour ex_now"
    by (simp add: ex_datetimes)
  then have "ex_early \<noteq> ex_now"
    by auto
  then show ?thesis
    by (simp add: transform_data_Inr [where raw = "ex_raw ''50''" and input_path = "''s3://in''", OF ex_raw_in]
        rstrip_out ex_date ex_rows write_overwrite_def partition_of_def)
qed

section \<open>Partition paths\<close>

text \<open>
  Claim C7. For every clock reading \<open>get_date_paths\<close> returns: the integers it returns
  are the year, the month and the day of the reading, and the path is \<open>year=\<close> followed
  by the decimal numeral of the year (digits only, no leading zero), \<open>/month=\<close> followed
  by exactly two digits, the tens and the units of the month, and \<open>/day=\<close> followed by
  the tens and the units of the day (read off the table of digits), so that a month or day below ten is padded with a
  zero. On 2025-03-07 the result is the path \<open>year=2025/month=03/day=07\<close> with the
  integers 2025, 3 and 7, and two readings of the same date give the same result.
\<close>

theorem get_date_paths_zero_padded:
  "(\<exists>Y. get_date_paths now =
          Inr \<lparr>di_year = int (dt_year now), di_month = int (dt_month now),
               di_day = int (dt_day now),
               di_date_path =
                 ''year='' @ Y @ ''/month=''
                   @ [''0123456789'' ! (dt_month now div 10), ''0123456789'' ! (dt_month now mod 10)]
                   @ ''/day=''
                   @ [''0123456789'' ! (dt_day now div 10), ''0123456789'' ! (dt_day now mod 10)]\<rparr>
        \<and> Y \<noteq> [] \<and> list_all is_digit Y \<and> hd Y \<noteq> CHR ''0'' \<and> digits_val Y = dt_year now)
   \<and> (dt_year now = 2025 \<and> dt_month now = 3 \<and> dt_day now = 7 \<longrightarrow>
        get_date_paths now =
          Inr \<lparr>di_year = 2025, di_month = 3, di_day = 7,
               di_date_path = ''year=2025/month=03/day=07''\<rparr>)
   \<and> (dt_year a = dt_year b \<and> dt_month a = dt_month b \<and> dt_day a = dt_day b \<longrightarrow>
        get_date_paths a = get_date_paths b)"
proof -
  have m: "dt_month now < 100" and d: "dt_day now < 100"
    using datetime_ranges(4,6) [of now] by simp_all
  have pad: "zfill 2 (str_nat n) = [''0123456789'' ! (n div 10), ''0123456789'' ! (n mod 10)]"
    if "n < 100" for n
    by (simp add: zfill_two_digits [OF that] digit_char_def)
  have path: "di_date_path (date_info_of now) =
                 ''year='' @ str_nat (dt_year now) @ ''/month=''
                   @ [''0123456789'' ! (dt_month now div 10), ''0123456789'' ! (dt_month now mod 10)]
                   @ ''/day=''
                   @ [''0123456789'' ! (dt_day now div 10), ''0123456789'' ! (dt_day now mod 10)]"
    by (simp add: date_info_of_def pad [OF m] pad [OF d])
  have year: "str_nat (dt_year now) \<noteq> []" "list_all is_digit (str_nat (dt_year now))"
    "hd (str_nat (dt_year now)) \<noteq> CHR ''0''" "digits_val (str_nat (dt_year now)) = dt_year now"
    using str_nat_digits [of "dt_year now"] str_nat_hd [OF datetime_ranges(1) [of now]]
    by simp_all
  have "get_date_paths now =
          Inr \<lparr>di_year = int (dt_year now), di_month = int (dt_month now),
               di_day = int (dt_day now),
               di_date_path =
                 ''year='' @ str_nat (dt_year now) @ ''/month=''
                   @ [''0123456789'' ! (dt_month now div 10), ''0123456789'' ! (dt_month now mod 10)]
                   @ ''/day=''
                   @ [''0123456789'' ! (dt_day now div 10), ''0123456789'' ! (dt_day now mod 10)]\<rparr>"
    using path by (simp add: get_date_paths_total date_info_of_def)
  then have general: "\<exists>Y. get_date_paths now =
          Inr \<lparr>di_year = int (dt_year now), di_month = int (dt_month now),
               di_day = int (dt_day now),
               di_date_path =
                 ''year='' @ Y @ ''/month=''
                   @ [''0123456789'' ! (dt_month now div 10), ''0123456789'' ! (dt_month now mod 10)]
                   @ ''/day=''
                   @ [''0123456789'' ! (dt_day now div 10), ''0123456789'' ! (dt_day now mod 10)]\<rparr>
        \<and> Y \<noteq> [] \<and> list_all is_digit Y \<and> hd Y \<noteq> CHR ''0'' \<and> digits_val Y = dt_year now"
    using year by blast
  have example: "get_date_paths now =
          Inr \<lparr>di_year = 2025, di_month = 3, di_day = 7,
               di_date_path = ''year=2025/month=03/day=07''\<rparr>"
    if "dt_year now = 2025 \<and> dt_month now = 3 \<and> dt_day now = 7"
    using that
    by (simp add: get_date_paths_total date_info_of_def str_nat.simps decimal_defs)
  have same: "get_date_paths a = get_date_paths b"
    if "dt_year a = dt_year b \<and> dt_month a = dt_month b \<and> dt_day a = dt_day b"
    using that by (simp add: get_date_paths_total date_info_of_def)
  show ?thesis
    using general example same by blast
qed

theorem get_date_paths_zero_padded_witness:
  "dt_year ex_now = 2025 \<and> dt_month ex_now = 3 \<and> dt_day ex_now = 7
   \<and> get_date_paths ex_now =
       Inr \<lparr>di_year = 2025, di_month = 3, di_day = 7,
            di_date_path = ''year=2025/month=03/day=07''\<rparr>
   \<and> dt_year ex_early = dt_year ex_now \<and> dt_month ex_early = dt_month ex_now
   \<and> dt_day ex_early = dt_day ex_now \<and> dt_hour ex_early \<noteq> dt_hour ex_now
   \<and> get_date_paths ex_early = get_date_paths ex_now"
  using get_date_paths_zero_padded [of ex_now ex_early ex_now]
  by (simp add: ex_datetimes)

section \<open>Source resolution fails soft\<close>

text \<open>
  Claim C8. Whatever is raised inside \<open>get_channel_info\<close> (an error of the upstream
  search or lookup, or a response without the expected fields) is logged and turned into
  \<^verbatim>\<open>None\<close>; the iteration of the entrypoint's loop for that source ends without an
  exception and without touching the store, and the loop goes on with the remaining
  sources.
\<close>

theorem lookup_failure_skips_source:
  assumes "get_channel_info_try yt c = Inl e"
  shows "get_channel_info yt c w
           = (None, w\<lparr>logs := logs w @ [LogError ''Error getting channel info'' e]\<rparr>)
       \<and> process_channel E yt now b c w
           = (Inr (), w\<lparr>logs := logs w @ [LogError ''Error getting channel info'' e]\<rparr>)
       \<and> process_channels E yt now b (c # cs) w
           = process_channels E yt now b cs
               (w\<lparr>logs := logs w @ [LogError ''Error getting channel info'' e]\<rparr>)"
  using assms by (simp add: get_channel_info_def process_channel_def)

theorem lookup_failure_skips_source_witness:
  "search_list ex_youtube ''@down'' = Inl HttpError
   \<and> get_channel_info_try ex_youtube ''@down'' = Inl HttpError
   \<and> process_channels ex_env ex_youtube ex_now ''bucket'' [''@down'', ''UC123''] ex_world
       = (Inr (),
          \<lparr>logs = [LogError ''Error getting channel info'' HttpError,
                   LogInfo ''Successfully uploaded to s3://bucket/raw/Test_Channel_20250307_100000.json''],
           s3 = [(''bucket'', ''raw/Test_Channel_20250307_100000.json'') \<mapsto>
                   \<lparr>ro_channel_info = ex_channel, ro_videos = ex_videos,
                    ro_analysis = ex_analysis\<rparr>]\<rparr>)"
proof -
  have s: "search_list ex_youtube ''@down'' = Inl HttpError"
    by (simp add: ex_youtube_def)
  note skip = lookup_failure_skips_source [OF ex_try_down, where E = ex_env and now = ex_now
      and b = "''bucket''" and cs = "[''UC123'']" and w = ex_world]
  have "process_channels ex_env ex_youtube ex_now ''bucket'' [''@down'', ''UC123''] ex_world
          = process_channels ex_env ex_youtube ex_now ''bucket'' [''UC123'']
              (ex_world\<lparr>logs := logs ex_world @ [LogError ''Error getting channel info'' HttpError]\<rparr>)"
    using skip by blast
  also have "\<dots> = (Inr (),
          \<lparr>logs = [LogError ''Error getting channel info'' HttpError,
                   LogInfo ''Successfully uploaded to s3://bucket/raw/Test_Channel_20250307_100000.json''],
           s3 = [(''bucket'', ''raw/Test_Channel_20250307_100000.json'') \<mapsto>
                   \<lparr>ro_channel_info = ex_channel, ro_videos = ex_videos,
                    ro_analysis = ex_analysis\<rparr>]\<rparr>)"
    unfolding ex_rest by (simp add: ex_world_def)
  finally show ?thesis
    using s ex_try_down by blast
qed

section \<open>The overwrite replaces the output root\<close>

text \<open>
  Claim C9. After a run of \<open>transform_data\<close> that returns, the output root holds no
  partition other than the one of the run's date: partitions written earlier for other
  dates are gone.
\<close>

theorem overwrite_replaces_output_root:
  assumes "transform_data to_timestamp now raw input_path output_path st = Inr st'"
    and "k \<noteq> (int (dt_year now), int (dt_month now), int (dt_day now))"
  shows "st' (rstrip_slash output_path) k = None"
proof (cases "raw input_path")
  case None
  with assms(1) show ?thesis by (simp add: transform_data_Inl)
next
  case (Some raw_df)
  have "st' = st(rstrip_slash output_path :=
               write_overwrite (transformed_df to_timestamp (date_info_of now) now raw_df))"
    using assms(1) by (simp add: transform_data_Inr [where raw = raw and input_path = input_path, OF Some])
  then show ?thesis
    using assms(2) by (simp add: write_overwrite_transformed date_info_of_def)
qed

theorem overwrite_replaces_output_root_witness:
  "ex_old_store ''s3://out'' (2025, 3, 6) = Some [ex_old_row]
   \<and> (2025, 3, 6) \<noteq> (int (dt_year ex_now), int (dt_month ex_now), int (dt_day ex_now))
   \<and> (\<exists>st'. transform_data Map.empty ex_now (ex_raw ''50'') ''s3://in'' ''s3://out/'' ex_old_store = Inr st'
          \<and> st' ''s3://out'' (2025, 3, 6) = None
          \<and> map_option length (st' ''s3://out'' (2025, 3, 7)) = Some 1)"
proof -
  have a: "ex_old_store ''s3://out'' (2025, 3, 6) = Some [ex_old_row]"
    by (simp add: ex_old_store_def)
  have b: "(2025, 3, 6) \<noteq> (int (dt_year ex_now), int (dt_month ex_now), int (dt_day ex_now))"
    by (simp add: ex_datetimes)
  obtain st' where r: "transform_data Map.empty ex_now (ex_raw ''50'') ''s3://in'' ''s3://out/'' ex_old_store = Inr st'"
    and s: "st' = ex_old_store(''s3://out'' := write_overwrite (transformed_df Map.empty (date_info_of ex_now) ex_now [ex_raw_row (Some ''UC1'') [ex_raw_video ''v1'' ''50'']]))"
    using transform_data_Inr [where raw = "ex_raw ''50''" and input_path = "''s3://in''"
        and to_timestamp = Map.empty and now = ex_now and output_path = "''s3://out/''"
        and st = ex_old_store, OF ex_raw_in]
    by (simp add: rstrip_out)
  have c: "st' ''s3://out'' (2025, 3, 6) = None"
    using overwrite_replaces_output_root [OF r b] by (simp add: rstrip_out)
  have d: "map_option length (st' ''s3://out'' (2025, 3, 7)) = Some 1"
    by (simp add: s ex_date ex_rows write_overwrite_def partition_of_def)
  show ?thesis using a b r c d by blast
qed

section \<open>The status of the extraction entrypoint\<close>

text \<open>
  Claim C10. \<open>lambda_handler\<close> returns status 200 exactly when the body of its
  \<^verbatim>\<open>try\<close> block (the reading of the environment, the construction of the client and the
  loop over the sources) ends without an exception, and status 500 exactly when an
  exception leaves that body. In particular it returns 200, with the object store as it
  was, when the lookup of every source fails, and 500 when an environment variable is
  missing.
\<close>

theorem lambda_handler_status:
  "(statusCode (fst (lambda_handler E now w)) = 200 \<longleftrightarrow> (\<exists>u. fst (handler_body E now w) = Inr u))
   \<and> (statusCode (fst (lambda_handler E now w)) = 500 \<longleftrightarrow> (\<exists>e. fst (handler_body E now w) = Inl e))
   \<and> (environ E ''YOUTUBE_API_KEY'' = Some k \<and> environ E ''S3_BUCKET_NAME'' = Some b
        \<and> build E k = Inr yt \<and> list_all (lookup_fails yt) channels
      \<longrightarrow> fst (lambda_handler E now w) = \<lparr>statusCode = 200, body = Completed\<rparr>
          \<and> s3 (snd (lambda_handler E now w)) = s3 w)
   \<and> (environ E ''YOUTUBE_API_KEY'' = None \<or> environ E ''S3_BUCKET_NAME'' = None
      \<longrightarrow> lambda_handler E now w
            = (\<lparr>statusCode = 500, body = Failed KeyError\<rparr>,
               w\<lparr>logs := logs w @ [LogError ''Lambda execution error'' KeyError]\<rparr>))"
proof -
  have a: "statusCode (fst (lambda_handler E now w)) = 200 \<longleftrightarrow> (\<exists>u. fst (handler_body E now w) = Inr u)"
    by (cases "handler_body E now w"; cases "fst (handler_body E now w)")
      (auto simp: lambda_handler_def)
  have b: "statusCode (fst (lambda_handler E now w)) = 500 \<longleftrightarrow> (\<exists>e. fst (handler_body E now w) = Inl e)"
    by (cases "handler_body E now w"; cases "fst (handler_body E now w)")
      (auto simp: lambda_handler_def)
  have c: "fst (lambda_handler E now w) = \<lparr>statusCode = 200, body = Completed\<rparr>
          \<and> s3 (snd (lambda_handler E now w)) = s3 w"
    if k: "environ E ''YOUTUBE_API_KEY'' = Some k" and b: "environ E ''S3_BUCKET_NAME'' = Some b"
      and y: "build E k = Inr yt" and l: "list_all (lookup_fails yt) channels"
  proof -
    have hb: "handler_body E now w = process_channels E yt now b channels w"
      using k b y by (simp add: handler_body_def)
    obtain w1 where "process_channels E yt now b channels w = (Inr (), w1)" "s3 w1 = s3 w"
      using process_channels_lookup_fails [OF l, of E now b w]
      by (cases "process_channels E yt now b channels w") auto
    then show ?thesis by (simp add: lambda_handler_def hb)
  qed
  have d: "lambda_handler E now w
            = (\<lparr>statusCode = 500, body = Failed KeyError\<rparr>,
               w\<lparr>logs := logs w @ [LogError ''Lambda execution error'' KeyError]\<rparr>)"
    if "environ E ''YOUTUBE_API_KEY'' = None \<or> environ E ''S3_BUCKET_NAME'' = None"
    using that by (auto simp: lambda_handler_def handler_body_def split: option.splits)
  show ?thesis using a b c d by blast
qed

theorem lambda_handler_status_witness:
  "environ ex_env ''YOUTUBE_API_KEY'' = Some ''key''
   \<and> environ ex_env ''S3_BUCKET_NAME'' = Some ''bucket''
   \<and> build ex_env ''key'' = Inr ex_youtube
   \<and> list_all (lookup_fails ex_youtube) channels
   \<and> fst (lambda_handler ex_env ex_now ex_world) = \<lparr>statusCode = 200, body = Completed\<rparr>
   \<and> s3 (snd (lambda_handler ex_env ex_now ex_world)) = s3 ex_world
   \<and> environ (ex_env\<lparr>environ := Map.empty\<rparr>) ''YOUTUBE_API_KEY'' = None
   \<and> lambda_handler (ex_env\<lparr>environ := Map.empty\<rparr>) ex_now ex_world
       = (\<lparr>statusCode = 500, body = Failed KeyError\<rparr>,
          ex_world\<lparr>logs := logs ex_world @ [LogError ''Lambda execution error'' KeyError]\<rparr>)"
proof -
  have k: "environ ex_env ''YOUTUBE_API_KEY'' = Some ''key''"
    and b: "environ ex_env ''S3_BUCKET_NAME'' = Some ''bucket''"
    and y: "build ex_env ''key'' = Inr ex_youtube"
    by (simp_all add: ex_env_def)
  have "lookup_fails ex_youtube c" if "take 2 c \<noteq> ''UC''" for c
    using search_error_in_try [OF that, of ex_youtube HttpError]
    by (simp add: lookup_fails_def ex_youtube_def)
  then have l: "list_all (lookup_fails ex_youtube) channels"
    by (simp add: channels_def)
  have n: "environ (ex_env\<lparr>environ := Map.empty\<rparr>) ''YOUTUBE_API_KEY'' = None"
    by simp
  show ?thesis
    using k b y l n
      lambda_handler_status [of ex_env ex_now ex_world "''key''" "''bucket''" ex_youtube]
      lambda_handler_status [of "ex_env\<lparr>environ := Map.empty\<rparr>" ex_now ex_world "''key''" "''bucket''" ex_youtube]
    by blast
qed

end
